theory Spec2Isabelle
  imports Complex_Main "HOL-Library.Log_Nat"
begin

section \<open>Strings and numbers of the host language\<close>

text \<open>
  Strings are lists of 8-bit characters. The numbers of the source are doubles. Hours,
  minutes and time values in milliseconds are modelled by exact integers (\<open>nat\<close> for the
  results of \<open>parseInt\<close> on a run of digits, \<open>int\<close> for time values since the epoch):
  the doubles agree with them as long as every intermediate value stays below \<open>2 ^ 53\<close>,
  which the hypotheses of the theorems on hours ensure. Prices and their sums are modelled
  as doubles, further below.
\<close>

definition isDigit :: "char \<Rightarrow> bool" where
  \<comment> \<open>the character class \<open>\d\<close>\<close>
  "isDigit c = (c \<in> set ''0123456789'')"

definition isSpace :: "char \<Rightarrow> bool" where
  \<comment> \<open>the character class \<open>\s\<close>, on 8-bit characters: TAB, LF, VT, FF, CR, SP, NBSP\<close>
  "isSpace c = (c \<in> set [CHR 0x09, CHR 0x0A, CHR 0x0B, CHR 0x0C, CHR 0x0D, CHR 0x20, CHR 0xA0])"

definition toUpperCase_char :: "char \<Rightarrow> char" where
  \<comment> \<open>\<open>toUpperCase\<close> on one ASCII character\<close>
  "toUpperCase_char c =
     (let n = (of_char c :: nat) in if 97 \<le> n \<and> n \<le> 122 then char_of (n - 32) else c)"

definition toUpperCase :: "string \<Rightarrow> string" where
  "toUpperCase s = map toUpperCase_char s"

definition digitVal :: "char \<Rightarrow> nat" where
  "digitVal c = (of_char c :: nat) - 48"

definition parseInt :: "string \<Rightarrow> nat" where
  \<comment> \<open>\<open>parseInt\<close> in radix 10, on the non-empty digit runs the patterns capture; the
      source's result is the double nearest to this value, which is this value below
      \<open>2 ^ 53\<close>\<close>
  "parseInt s = foldl (\<lambda>n c. 10 * n + digitVal c) 0 s"

fun digitsOf :: "nat \<Rightarrow> string" where
  "digitsOf n =
     (if n < 10 then [''0123456789'' ! n]
      else digitsOf (n div 10) @ [''0123456789'' ! (n mod 10)])"

declare digitsOf.simps [simp del]

definition toString :: "nat \<Rightarrow> string" where
  \<comment> \<open>\<open>Number.prototype.toString\<close> on a non-negative integer\<close>
  "toString n = digitsOf n"

definition padStart :: "nat \<Rightarrow> char \<Rightarrow> string \<Rightarrow> string" where
  \<comment> \<open>\<open>s.padStart(n, c)\<close> with a one-character filler\<close>
  "padStart n c s = replicate (n - length s) c @ s"


text \<open>
  A finite double is modelled by the rational number it stands for. The sum of two doubles
  is the exact sum rounded to the nearest double, a tie going to the even significand of
  53 bits; the smallest exponent is that of the subnormal doubles. A sum beyond the
  largest finite double, which the source gives as \<open>Infinity\<close>, is not modelled.
\<close>

definition pow2 :: "int \<Rightarrow> rat" where
  "pow2 e = (if e \<ge> 0 then 2 ^ nat e else 1 / 2 ^ nat (- e))"

definition floorLog2 :: "rat \<Rightarrow> int" where
  \<comment> \<open>the \<open>e\<close> with \<open>pow2 e \<le> a < pow2 (e + 1)\<close>, for a positive \<open>a\<close>\<close>
  "floorLog2 a =
     (case quotient_of a of (p, q) \<Rightarrow>
        let e0 = bitlen p - bitlen q
        in if a \<ge> pow2 e0 then e0 else e0 - 1)"

definition roundHalfEven :: "rat \<Rightarrow> int" where
  "roundHalfEven m =
     (let f = \<lfloor>m\<rfloor>; r = m - of_int f
      in if r < 1 / 2 then f else if r > 1 / 2 then f + 1 else if even f then f else f + 1)"

definition roundDouble :: "rat \<Rightarrow> rat" where
  "roundDouble x =
     (if x = 0 then 0
      else
        let a = \<bar>x\<bar>;
            q = max (floorLog2 a - 52) (- 1074);
            n = roundHalfEven (a / pow2 q)
        in sgn x * of_int n * pow2 q)"

definition plus_double :: "rat \<Rightarrow> rat \<Rightarrow> rat" where
  \<comment> \<open>\<open>a + b\<close> on two doubles\<close>
  "plus_double a b = roundDouble (a + b)"


section \<open>The two time patterns\<close>

text \<open>
  \<open>canCancelBooking\<close> matches the start time against
  \<^verbatim>\<open>/(\d+):(\d+)(?::(\d+))?\s*([AP]M)?/i\<close>. The pattern is not anchored: the match is
  the leftmost one. At a given position the first \<open>\d+\<close> can only take the whole run of
  digits (a shorter run is followed by a digit, not by the colon), and everything after
  the second \<open>\d+\<close> is optional and greedy, so no backtracking changes a capture. The
  result holds the groups 1 to 4; an optional group that took no part is \<open>None\<close>.
\<close>

definition timeRegex_at ::
  "string \<Rightarrow> (string \<times> string \<times> string option \<times> string option) option" where
  "timeRegex_at s =
     (let hourStr = takeWhile isDigit s; r1 = dropWhile isDigit s in
      if hourStr = [] then None
      else case r1 of
        [] \<Rightarrow> None
      | c # r2 \<Rightarrow>
          if c \<noteq> CHR '':'' then None
          else
            let minuteStr = takeWhile isDigit r2; r3 = dropWhile isDigit r2 in
            if minuteStr = [] then None
            else
              let (secondStr, r4) =
                    (case r3 of
                       [] \<Rightarrow> (None, r3)
                     | c' # r \<Rightarrow>
                         if c' = CHR '':'' \<and> takeWhile isDigit r \<noteq> []
                         then (Some (takeWhile isDigit r), dropWhile isDigit r)
                         else (None, r3));
                  r5 = dropWhile isSpace r4;
                  periodStr =
                    (case r5 of
                       a # m # _ \<Rightarrow>
                         if (toUpperCase_char a = CHR ''A'' \<or> toUpperCase_char a = CHR ''P'')
                            \<and> toUpperCase_char m = CHR ''M''
                         then Some [a, m] else None
                     | _ \<Rightarrow> None)
              in Some (hourStr, minuteStr, secondStr, periodStr))"

fun timeRegex_match ::
  "string \<Rightarrow> (string \<times> string \<times> string option \<times> string option) option" where
  "timeRegex_match [] = None"
| "timeRegex_match (c # s) =
     (case timeRegex_at (c # s) of
        Some m \<Rightarrow> Some m
      | None \<Rightarrow> timeRegex_match s)"

text \<open>
  \<open>handleBooking\<close> matches the selected slot against \<^verbatim>\<open>/(\d+):(\d+)\s([AP]M)/\<close>:
  case-sensitive, exactly one white-space character, and the suffix is required. The
  result holds the groups 1 to 3 (\<open>.slice(1)\<close> of the match).
\<close>

definition slotRegex_at :: "string \<Rightarrow> (string \<times> string \<times> string) option" where
  "slotRegex_at s =
     (let hourStr = takeWhile isDigit s; r1 = dropWhile isDigit s in
      if hourStr = [] then None
      else case r1 of
        [] \<Rightarrow> None
      | c # r2 \<Rightarrow>
          if c \<noteq> CHR '':'' then None
          else
            let minuteStr = takeWhile isDigit r2; r3 = dropWhile isDigit r2 in
            if minuteStr = [] then None
            else case r3 of
              w # a # m # _ \<Rightarrow>
                if isSpace w \<and> (a = CHR ''A'' \<or> a = CHR ''P'') \<and> m = CHR ''M''
                then Some (hourStr, minuteStr, [a, m]) else None
            | _ \<Rightarrow> None)"

fun slotRegex_match :: "string \<Rightarrow> (string \<times> string \<times> string) option" where
  "slotRegex_match [] = None"
| "slotRegex_match (c # s) =
     (case slotRegex_at (c # s) of
        Some m \<Rightarrow> Some m
      | None \<Rightarrow> slotRegex_match s)"


section \<open>Slot arithmetic\<close>

definition hour24 :: "string \<Rightarrow> nat \<Rightarrow> nat" where
  \<comment> \<open>the two conditional assignments that follow \<open>parseInt(hourStr)\<close> at both places\<close>
  "hour24 period hour =
     (let hour = (if period = ''PM'' \<and> hour \<noteq> 12 then hour + 12 else hour);
          hour = (if period = ''AM'' \<and> hour = 12 then 0 else hour)
      in hour)"

definition slotTime24 :: "string \<Rightarrow> (nat \<times> string) option" where
  \<comment> \<open>the hour, on the 24-hour clock, and the minute string \<open>handleBooking\<close> takes from the
      selected slot; \<open>None\<close> when the pattern does not match (\<open>.slice\<close> on \<open>null\<close> throws)\<close>
  "slotTime24 startTime =
     (case slotRegex_match startTime of
        None \<Rightarrow> None
      | Some (hourStr, minuteStr, period) \<Rightarrow>
          let hour = parseInt hourStr;
              hour = hour24 period hour
          in Some (hour, minuteStr))"

definition endTimeOf :: "string \<Rightarrow> string option" where
  \<comment> \<open>the end time \<open>handleBooking\<close> computes for the selected slot\<close>
  "endTimeOf startTime =
     (case slotTime24 startTime of
        None \<Rightarrow> None
      | Some (hour, minuteStr) \<Rightarrow>
          let endHour = hour + 1;
              endPeriod = (if endHour \<ge> 12 then ''PM'' else ''AM'');
              endHour = (if endHour > 12 then endHour - 12 else endHour);
              endHour = (if endHour = 0 then 12 else endHour)
          in Some (padStart 2 (CHR ''0'') (toString endHour) @ '':'' @ minuteStr @ '' ''
                   @ endPeriod))"

definition timeSlots :: "string list" where
  \<comment> \<open>the slots the turf page offers\<close>
  "timeSlots =
     [''09:00 AM'', ''10:00 AM'', ''11:00 AM'', ''12:00 PM'', ''01:00 PM'', ''02:00 PM'',
      ''03:00 PM'', ''04:00 PM'', ''05:00 PM'', ''06:00 PM'', ''07:00 PM'', ''08:00 PM'']"

definition startTime24 :: "string \<Rightarrow> (nat \<times> nat) option" where
  \<comment> \<open>the hour and the minute \<open>canCancelBooking\<close> passes to \<open>setHours\<close>; \<open>None\<close> when the
      pattern does not match\<close>
  "startTime24 start =
     (case timeRegex_match start of
        None \<Rightarrow> None
      | Some (hourStr, minuteStr, secondStr, periodStr) \<Rightarrow>
          let hour = parseInt hourStr;
              period = (case periodStr of None \<Rightarrow> [] | Some p \<Rightarrow> toUpperCase p);
              hour = hour24 period hour
          in Some (hour, parseInt minuteStr))"

definition minuteOfDay :: "string \<Rightarrow> nat option" where
  \<comment> \<open>the time of day a string stands for, in minutes after midnight, as
      \<open>canCancelBooking\<close> reads it\<close>
  "minuteOfDay s = map_option (\<lambda>(hour, minute). 60 * hour + minute) (startTime24 s)"


section \<open>Dates\<close>

text \<open>
  A \<open>Date\<close> object is its time value: milliseconds since the epoch, or \<open>None\<close> for the
  \<open>NaN\<close> of an Invalid Date. The \<open>Date\<close> constructor on a string is a function of the
  platform and is a parameter \<open>newDate\<close> of the operations below; \<open>new Date()\<close> is the
  parameter \<open>now\<close>. The local time zone is a parameter \<open>tz\<close>, the offset of local time
  from UTC in milliseconds, taken constant over the instants involved.
\<close>

type_synonym Date = "int option"

definition msPerDay :: int where
  "msPerDay = 86400000"

definition msPerHour :: int where
  "msPerHour = 3600000"

definition msPerMinute :: int where
  "msPerMinute = 60000"

definition TimeClip :: "int \<Rightarrow> Date" where
  "TimeClip t = (if \<bar>t\<bar> > 8640000000000000 then None else Some t)"

definition setHours :: "int \<Rightarrow> nat \<Rightarrow> nat \<Rightarrow> Date \<Rightarrow> Date" where
  \<comment> \<open>\<open>d.setHours(hour, min, 0, 0)\<close>: the local day of \<open>d\<close> at the given time of day
      (an hour of 24 or more runs into the following days)\<close>
  "setHours tz hour minute d =
     (case d of
        None \<Rightarrow> None
      | Some t \<Rightarrow>
          TimeClip (((t + tz) div msPerDay) * msPerDay
                    + (int hour * msPerHour + int minute * msPerMinute) - tz))"

text \<open>
  The date-only form \<open>YYYY-MM-DD\<close> (the form of the backend's date column) is read by the
  \<open>Date\<close> constructor as midnight UTC of that day; a day up to 31 that the month does
  not have runs into the next month. \<open>newDate_dateOnly\<close> is the constructor on that form,
  for the examples; any other string is an Invalid Date to it.
\<close>

definition daysFromCivil :: "int \<Rightarrow> int \<Rightarrow> int \<Rightarrow> int" where
  \<comment> \<open>days from 1970-01-01 to the day \<open>d\<close> of month \<open>m\<close> of year \<open>y\<close>, proleptic Gregorian\<close>
  "daysFromCivil y m d =
     (let y' = (if m \<le> 2 then y - 1 else y);
          era = y' div 400;
          yoe = y' - era * 400;
          mp = (if m > 2 then m - 3 else m + 9);
          doy = (153 * mp + 2) div 5 + d - 1;
          doe = yoe * 365 + yoe div 4 - yoe div 100 + doy
      in era * 146097 + doe - 719468)"

definition newDate_dateOnly :: "string \<Rightarrow> Date" where
  "newDate_dateOnly s =
     (if length s = 10 \<and> list_all isDigit (take 4 s) \<and> s ! 4 = CHR ''-''
         \<and> list_all isDigit (take 2 (drop 5 s)) \<and> s ! 7 = CHR ''-''
         \<and> list_all isDigit (drop 8 s)
      then
        let y = parseInt (take 4 s); m = parseInt (take 2 (drop 5 s)); d = parseInt (drop 8 s)
        in if 1 \<le> m \<and> m \<le> 12 \<and> 1 \<le> d \<and> d \<le> 31
           then Some (daysFromCivil (int y) (int m) (int d) * msPerDay)
           else None
      else None)"


section \<open>Bookings and the cancellation window\<close>

record booking =
  id' :: string
  turf_id :: string
  user_id :: string
  booking_date :: string
  start_time :: string
  end_time :: string
  total_price :: rat
  status :: string
  created_at :: string

definition canCancelBooking :: "(string \<Rightarrow> Date) \<Rightarrow> int \<Rightarrow> int \<Rightarrow> booking \<Rightarrow> bool" where
  \<comment> \<open>nothing in the \<open>try\<close> block throws on a string, and its \<open>catch\<close> returns false;
      the quotient is exact here, and rounding it to a double, as the source does, leaves
      its comparison with 7 as it is, the difference being a whole number of milliseconds\<close>
  "canCancelBooking newDate tz now booking =
     (let bookingDate = newDate (booking_date booking) in
      case startTime24 (start_time booking) of
        None \<Rightarrow> False
      | Some (hour, minute) \<Rightarrow>
          (case setHours tz hour minute bookingDate of
             None \<Rightarrow> False
           | Some t \<Rightarrow>
               let timeDiff = (of_int (t - now) :: rat) / (1000 * 60 * 60)
               in timeDiff \<ge> 7))"

definition cancelButtonShown :: "(string \<Rightarrow> Date) \<Rightarrow> int \<Rightarrow> int \<Rightarrow> booking \<Rightarrow> bool" where
  \<comment> \<open>the two nested guards around the Cancel Booking button of a booking's card\<close>
  "cancelButtonShown newDate tz now booking =
     (status booking \<noteq> ''cancelled''
      \<and> (status booking \<noteq> ''cancelled'' \<and> canCancelBooking newDate tz now booking))"


section \<open>Pages, the backend and its answers\<close>

text \<open>
  What a handler leaves behind is kept in two records: the backend (the bookings table and
  the edge functions invoked, each with its recipient) and the page (its state, the toasts
  shown as title and description, the \<open>console.error\<close> lines as label and message, and
  the routes navigated to). How the backend answers during one run of a handler is a
  parameter: an error of a query is \<open>Some\<close> of its message, and \<open>functions.invoke\<close>
  either resolves, with or without an error in its result, or rejects (the call throws).
  An absent string and the empty string are both falsy where a string is used as a
  condition.
\<close>

record backend =
  rows :: "booking list"
  invoked :: "(string \<times> string) list"

datatype invokeResult = Resolved "string option" | Rejected string

record answers =
  selectError :: "string option"
  updateError :: "string option"
  insertError :: "string option"
  insertedId :: string
  insertedAt :: string
  invokeAnswer :: invokeResult

record User =
  uid :: string
  email :: "string option"

record Turf =
  tid :: string
  price :: rat

record page =
  toasts :: "(string \<times> string) list"
  consoleErrors :: "(string \<times> string) list"
  navigated :: "string list"

record myBookings = page +
  bookings :: "booking list"
  confirmCancelId :: "string option"
  isCancelling :: bool

record turfDetail = page +
  turf :: "Turf option"
  date :: "Date option"
  selectedTimeSlot :: "string option"
  isBooking :: bool

definition toast :: "string \<Rightarrow> string \<Rightarrow> ('a page_scheme) \<Rightarrow> ('a page_scheme)" where
  "toast title description p = p\<lparr>toasts := toasts p @ [(title, description)]\<rparr>"

definition console_error :: "string \<Rightarrow> string \<Rightarrow> ('a page_scheme) \<Rightarrow> ('a page_scheme)" where
  "console_error label msg p = p\<lparr>consoleErrors := consoleErrors p @ [(label, msg)]\<rparr>"

definition navigate :: "string \<Rightarrow> ('a page_scheme) \<Rightarrow> ('a page_scheme)" where
  "navigate route p = p\<lparr>navigated := navigated p @ [route]\<rparr>"


section \<open>Cancelling a booking\<close>

definition handleCancelRequest ::
  "(string \<Rightarrow> Date) \<Rightarrow> int \<Rightarrow> int \<Rightarrow> string \<Rightarrow> myBookings \<Rightarrow> myBookings" where
  "handleCancelRequest newDate tz now bookingId st =
     (case find (\<lambda>b. id' b = bookingId) (bookings st) of
        None \<Rightarrow> st\<lparr>confirmCancelId := Some bookingId\<rparr>
      | Some booking \<Rightarrow>
          if \<not> canCancelBooking newDate tz now booking
          then toast ''Cannot cancel booking''
                 ''Bookings can only be cancelled at least 7 hours before the start time.'' st
          else st\<lparr>confirmCancelId := Some bookingId\<rparr>)"

definition markCancelled :: "string \<Rightarrow> booking list \<Rightarrow> booking list" where
  \<comment> \<open>the update of the table, and the same map over the page's list\<close>
  "markCancelled bid bs =
     map (\<lambda>booking. if id' booking = bid then booking\<lparr>status := ''cancelled''\<rparr> else booking) bs"

definition cancelConfirm_try ::
  "answers \<Rightarrow> User option \<Rightarrow> string \<Rightarrow> backend \<times> myBookings
     \<Rightarrow> string option \<times> backend \<times> myBookings" where
  \<comment> \<open>the \<open>try\<close> block of \<open>handleCancelConfirm\<close>: the error thrown, if any, and the state
      reached when it is thrown or when the block ends\<close>
  "cancelConfirm_try net user cid bs =
     (case bs of (be, st) \<Rightarrow>
      case selectError net of
        Some e \<Rightarrow> (Some e, be, st)
      | None \<Rightarrow>
          (case filter (\<lambda>b. id' b = cid) (rows be) of
             [bookingData] \<Rightarrow>
               (case updateError net of
                  Some e \<Rightarrow> (Some e, be, st)
                | None \<Rightarrow>
                    let be1 = be\<lparr>rows := markCancelled cid (rows be)\<rparr>;
                        done = (\<lambda>be'. (None, be',
                                  toast ''Booking cancelled''
                                    ''Your booking has been successfully cancelled.''
                                    (st\<lparr>bookings := markCancelled cid (bookings st)\<rparr>)))
                    in case user of
                         None \<Rightarrow> done be1
                       | Some u \<Rightarrow>
                           (case email u of
                              None \<Rightarrow> done be1
                            | Some addr \<Rightarrow>
                                if addr = [] then done be1
                                else
                                  let be2 = be1\<lparr>invoked := invoked be1
                                               @ [(''booking-notification'', addr)]\<rparr>
                                  in case invokeAnswer net of
                                       Rejected e \<Rightarrow> (Some e, be2, st)
                                     | Resolved r \<Rightarrow> done be2))
           | _ \<Rightarrow> (Some ''JSON object requested, multiple (or no) rows returned'', be, st)))"

definition handleCancelConfirm ::
  "answers \<Rightarrow> User option \<Rightarrow> backend \<times> myBookings \<Rightarrow> backend \<times> myBookings" where
  \<comment> \<open>the handler returns at once on a falsy pending id: \<open>null\<close> or the empty string\<close>
  "handleCancelConfirm net user bs =
     (case bs of (be, st) \<Rightarrow>
      case confirmCancelId st of
        None \<Rightarrow> (be, st)
      | Some cid \<Rightarrow>
          if cid = [] then (be, st)
          else
            (case cancelConfirm_try net user cid (be, st\<lparr>isCancelling := True\<rparr>) of
               (thrown, be', st') \<Rightarrow>
                 let st'' =
                       (case thrown of
                          None \<Rightarrow> st'
                        | Some msg \<Rightarrow>
                            toast ''Error'' ''Failed to cancel booking. Please try again.''
                              (console_error ''Error cancelling booking:'' msg st'))
                 in (be', st''\<lparr>isCancelling := False, confirmCancelId := None\<rparr>)))"

definition cancelDialogOpen :: "myBookings \<Rightarrow> bool" where
  \<comment> \<open>the \<open>open\<close> property of the confirmation dialog, \<open>!!confirmCancelId\<close>\<close>
  "cancelDialogOpen st = (case confirmCancelId st of None \<Rightarrow> False | Some cid \<Rightarrow> cid \<noteq> [])"


section \<open>Creating a booking\<close>

definition booking_try ::
  "(int \<Rightarrow> string) \<Rightarrow> answers \<Rightarrow> User \<Rightarrow> Turf \<Rightarrow> Date \<Rightarrow> string \<Rightarrow> backend \<times> turfDetail
     \<Rightarrow> string option \<times> backend \<times> turfDetail" where
  \<comment> \<open>the outer \<open>try\<close> block of \<open>handleBooking\<close>; \<open>toISOString\<close> is the platform's\<close>
  "booking_try toISOString net u tf d startTime bs =
     (case bs of (be, st) \<Rightarrow>
      case endTimeOf startTime of
        None \<Rightarrow> (Some ''Cannot read properties of null (reading 'slice')'', be, st)
      | Some endTime \<Rightarrow>
          (case d of
             None \<Rightarrow> (Some ''Invalid time value'', be, st)
           | Some t \<Rightarrow>
               (case insertError net of
                  Some e \<Rightarrow> (Some e, be, st)
                | None \<Rightarrow>
                    let bookingData =
                          \<lparr>id' = insertedId net, turf_id = tid tf, user_id = uid u,
                           booking_date = takeWhile (\<lambda>c. c \<noteq> CHR ''T'') (toISOString t),
                           start_time = startTime, end_time = endTime,
                           total_price = price tf, status = ''confirmed'',
                           created_at = insertedAt net\<rparr>;
                        be1 = be\<lparr>rows := rows be @ [bookingData]\<rparr>;
                        (be2, st2) =
                          (case email u of
                             None \<Rightarrow> (be1, st)
                           | Some addr \<Rightarrow>
                               if addr = [] then (be1, st)
                               else
                                 let be2 = be1\<lparr>invoked := invoked be1
                                              @ [(''send-booking-email'', addr)]\<rparr>
                                 in case invokeAnswer net of
                                      Rejected e \<Rightarrow>
                                        (be2, console_error ''Failed to send email:'' e st)
                                    | Resolved (Some e) \<Rightarrow>
                                        (be2, console_error ''Error sending email:'' e st)
                                    | Resolved None \<Rightarrow> (be2, st))
                    in (None, be2,
                        navigate ''/my-bookings''
                          (toast ''Booking successful!''
                             ''Your booking has been confirmed. We've sent you a confirmation email.''
                             st2)))))"

definition handleBooking ::
  "(int \<Rightarrow> string) \<Rightarrow> answers \<Rightarrow> User option \<Rightarrow> backend \<times> turfDetail \<Rightarrow> backend \<times> turfDetail" where
  "handleBooking toISOString net user bs =
     (case bs of (be, st) \<Rightarrow>
      case user of
        None \<Rightarrow>
          (be, navigate ''/auth''
                 (toast ''Authentication required'' ''Please sign in to book a turf'' st))
      | Some u \<Rightarrow>
          (case (date st, selectedTimeSlot st, turf st) of
             (Some d, Some startTime, Some tf) \<Rightarrow>
               if startTime = [] then
                 (be, toast ''Incomplete booking'' ''Please select a date and time slot'' st)
               else
                 (case booking_try toISOString net u tf d startTime (be, st\<lparr>isBooking := True\<rparr>) of
                    (thrown, be', st') \<Rightarrow>
                      let st'' =
                            (case thrown of
                               None \<Rightarrow> st'
                             | Some msg \<Rightarrow>
                                 toast ''Booking failed''
                                   (if msg = [] then ''Something went wrong. Please try again.''
                                    else msg)
                                   (console_error ''Error booking turf:'' msg st'))
                      in (be', st''\<lparr>isBooking := False\<rparr>))
           | _ \<Rightarrow> (be, toast ''Incomplete booking'' ''Please select a date and time slot'' st)))"


section \<open>The administrator's aggregates\<close>

definition or0 :: "'a::zero \<Rightarrow> 'a" where
  \<comment> \<open>\<open>x || 0\<close> on a number\<close>
  "or0 x = (if x = 0 then 0 else x)"

definition totalRevenue :: "booking list \<Rightarrow> rat" where
  "totalRevenue enrichedBookings =
     or0 (foldl (\<lambda>sum booking.
                   if status booking \<noteq> ''cancelled''
                   then plus_double sum (or0 (total_price booking))
                   else sum)
            0 enrichedBookings)"

definition activeBookings :: "(string \<Rightarrow> Date) \<Rightarrow> int \<Rightarrow> booking list \<Rightarrow> nat" where
  \<comment> \<open>\<open>>=\<close> on two dates compares their time values and is false on \<open>NaN\<close>;
      \<open>new Date()\<close>, evaluated again for each booking, is taken to give the same instant
      throughout the pass\<close>
  "activeBookings newDate now enrichedBookings =
     or0 (length (filter (\<lambda>booking.
                    status booking \<noteq> ''cancelled''
                    \<and> (case newDate (booking_date booking) of
                         None \<Rightarrow> False
                       | Some t \<Rightarrow> t \<ge> now))
            enrichedBookings))"


definition activeBookings_spec :: "(string \<Rightarrow> Date) \<Rightarrow> int \<Rightarrow> booking list \<Rightarrow> nat" where
  \<comment> \<open>the count in the words of the specification, for comparison: status not cancelled
      and booking date on or after today, days being those of UTC\<close>
  "activeBookings_spec newDate now bs =
     length (filter (\<lambda>booking.
               status booking \<noteq> ''cancelled''
               \<and> (case newDate (booking_date booking) of
                    None \<Rightarrow> False
                  | Some t \<Rightarrow> t div msPerDay \<ge> now div msPerDay))
       bs)"


section \<open>Values for the examples\<close>

definition exampleBooking :: "string \<Rightarrow> string \<Rightarrow> string \<Rightarrow> string \<Rightarrow> booking" where
  "exampleBooking bid day start st =
     \<lparr>id' = bid, turf_id = ''t1'', user_id = ''u1'', booking_date = day, start_time = start,
      end_time = [], total_price = 1200, status = st,
      created_at = ''2024-06-01T10:00:00Z''\<rparr>"

definition examplePage :: "booking list \<Rightarrow> string option \<Rightarrow> myBookings" where
  "examplePage bs cid =
     \<lparr>toasts = [], consoleErrors = [], navigated = [], bookings = bs, confirmCancelId = cid,
      isCancelling = False\<rparr>"


definition exampleAnswers :: "invokeResult \<Rightarrow> answers" where
  \<comment> \<open>a backend that accepts every query and answers the invocation as given\<close>
  "exampleAnswers a =
     \<lparr>selectError = None, updateError = None, insertError = None, insertedId = ''b9'',
      insertedAt = ''2024-06-01T10:00:00Z'', invokeAnswer = a\<rparr>"

definition exampleUser :: User where
  "exampleUser = \<lparr>uid = ''u1'', email = Some ''user@example.org''\<rparr>"

definition exampleTurfDetail :: "string \<Rightarrow> turfDetail" where
  \<comment> \<open>the turf page with 2024-06-10 and the given slot selected\<close>
  "exampleTurfDetail slot =
     \<lparr>toasts = [], consoleErrors = [], navigated = [],
      turf = Some \<lparr>tid = ''t1'', price = 1200\<rparr>, date = Some (Some 1717977600000),
      selectedTimeSlot = Some slot, isBooking = False\<rparr>"

definition exampleISO :: "int \<Rightarrow> string" where
  \<comment> \<open>\<open>toISOString\<close> at the instant selected in \<open>exampleTurfDetail\<close>\<close>
  "exampleISO t = ''2024-06-10T00:00:00.000Z''"


section \<open>Facts about characters, digit runs and the patterns\<close>

lemma colon_not_digit: "\<not> isDigit (CHR '':'')"
  by (simp add: isDigit_def)

lemma space_not_digit: "\<not> isDigit (CHR '' '')"
  by (simp add: isDigit_def)

lemma space_isSpace: "isSpace (CHR '' '')"
  by (simp add: isSpace_def)

lemma letters_not_space: "\<not> isSpace (CHR ''A'')" "\<not> isSpace (CHR ''P'')"
  by (simp_all add: isSpace_def)

lemma toUpperCase_char_APM:
  "toUpperCase_char (CHR ''A'') = CHR ''A''"
  "toUpperCase_char (CHR ''P'') = CHR ''P''"
  "toUpperCase_char (CHR ''M'') = CHR ''M''"
  by code_simp+

lemma takeWhile_digits_stop:
  "list_all isDigit ds \<Longrightarrow> takeWhile isDigit r = [] \<Longrightarrow> takeWhile isDigit (ds @ r) = ds"
  by (induction ds) auto

lemma dropWhile_digits_stop:
  "list_all isDigit ds \<Longrightarrow> takeWhile isDigit r = [] \<Longrightarrow> dropWhile isDigit (ds @ r) = r"
  by (induction ds) (auto simp: takeWhile_eq_Nil_iff dropWhile_eq_self_iff)

lemma timeRegex_at_plain:
  assumes "list_all isDigit hs" "hs \<noteq> []" "list_all isDigit ms" "ms \<noteq> []"
  shows "timeRegex_at (hs @ '':'' @ ms) = Some (hs, ms, None, None)"
proof -
  have h: "takeWhile isDigit (hs @ CHR '':'' # ms) = hs"
          "dropWhile isDigit (hs @ CHR '':'' # ms) = CHR '':'' # ms"
    using assms(1) by (simp_all add: takeWhile_digits_stop dropWhile_digits_stop colon_not_digit)
  have m: "takeWhile isDigit ms = ms" "dropWhile isDigit ms = []"
    using assms(3) takeWhile_digits_stop[of ms "[]"] dropWhile_digits_stop[of ms "[]"] by simp_all
  show ?thesis
    using assms(2,4) by (simp add: timeRegex_at_def h m)
qed

lemma timeRegex_at_period:
  assumes "list_all isDigit hs" "hs \<noteq> []" "list_all isDigit ms" "ms \<noteq> []"
    and "p = ''AM'' \<or> p = ''PM''"
  shows "timeRegex_at (hs @ '':'' @ ms @ '' '' @ p) = Some (hs, ms, None, Some p)"
proof -
  have h: "takeWhile isDigit (hs @ CHR '':'' # ms @ CHR '' '' # p) = hs"
          "dropWhile isDigit (hs @ CHR '':'' # ms @ CHR '' '' # p) = CHR '':'' # ms @ CHR '' '' # p"
    using assms(1) by (simp_all add: takeWhile_digits_stop dropWhile_digits_stop colon_not_digit)
  have m: "takeWhile isDigit (ms @ CHR '' '' # p) = ms"
          "dropWhile isDigit (ms @ CHR '' '' # p) = CHR '' '' # p"
    using assms(3) by (simp_all add: takeWhile_digits_stop dropWhile_digits_stop space_not_digit)
  show ?thesis
    using assms(2,4,5)
    by (auto simp: timeRegex_at_def h m space_isSpace letters_not_space toUpperCase_char_APM)
qed

lemma slotRegex_at_period:
  assumes "list_all isDigit hs" "hs \<noteq> []" "list_all isDigit ms" "ms \<noteq> []"
    and "p = ''AM'' \<or> p = ''PM''"
  shows "slotRegex_at (hs @ '':'' @ ms @ '' '' @ p) = Some (hs, ms, p)"
proof -
  have h: "takeWhile isDigit (hs @ CHR '':'' # ms @ CHR '' '' # p) = hs"
          "dropWhile isDigit (hs @ CHR '':'' # ms @ CHR '' '' # p) = CHR '':'' # ms @ CHR '' '' # p"
    using assms(1) by (simp_all add: takeWhile_digits_stop dropWhile_digits_stop colon_not_digit)
  have m: "takeWhile isDigit (ms @ CHR '' '' # p) = ms"
          "dropWhile isDigit (ms @ CHR '' '' # p) = CHR '' '' # p"
    using assms(3) by (simp_all add: takeWhile_digits_stop dropWhile_digits_stop space_not_digit)
  show ?thesis
    using assms(2,4,5)
    by (auto simp: slotRegex_at_def h m space_isSpace)
qed

lemma timeRegex_match_at:
  "timeRegex_at s = Some m \<Longrightarrow> timeRegex_match s = Some m"
  by (cases s) (simp_all add: timeRegex_at_def)

lemma slotRegex_match_at:
  "slotRegex_at s = Some m \<Longrightarrow> slotRegex_match s = Some m"
  by (cases s) (simp_all add: slotRegex_at_def)

lemma timeRegex_at_None_iff:
  "timeRegex_at s = None \<longleftrightarrow>
     takeWhile isDigit s = []
     \<or> \<not> (\<exists>r2. dropWhile isDigit s = CHR '':'' # r2 \<and> takeWhile isDigit r2 \<noteq> [])"
proof (cases "dropWhile isDigit s")
  case Nil
  show ?thesis unfolding timeRegex_at_def Let_def Nil by simp
next
  case (Cons c r2)
  show ?thesis unfolding timeRegex_at_def Let_def Cons by (simp split: prod.splits)
qed

lemma timeRegex_at_head:
  assumes "isDigit h" "isDigit m"
  shows "timeRegex_at (h # CHR '':'' # m # post) \<noteq> None"
  unfolding timeRegex_at_None_iff using assms by (simp add: colon_not_digit)

lemma timeRegex_at_contains:
  assumes "timeRegex_at s \<noteq> None"
  shows "\<exists>pre h m post. s = pre @ h # CHR '':'' # m # post \<and> isDigit h \<and> isDigit m"
proof -
  from assms obtain r2 where hs: "takeWhile isDigit s \<noteq> []"
    and r: "dropWhile isDigit s = CHR '':'' # r2" and ms: "takeWhile isDigit r2 \<noteq> []"
    unfolding timeRegex_at_None_iff by blast
  let ?hs = "takeWhile isDigit s"
  from ms obtain m post where r2: "r2 = m # post" and dm: "isDigit m"
    by (cases r2) (auto split: if_splits)
  have dh: "isDigit (last ?hs)"
    using hs by (metis last_in_set set_takeWhileD)
  have "s = ?hs @ dropWhile isDigit s" by simp
  also have "\<dots> = (butlast ?hs @ [last ?hs]) @ CHR '':'' # m # post"
    using hs r r2 by simp
  finally have "s = butlast ?hs @ last ?hs # CHR '':'' # m # post" by simp
  with dh dm show ?thesis by blast
qed

lemma timeRegex_match_None_iff:
  "timeRegex_match s = None \<longleftrightarrow>
     \<not> (\<exists>pre h m post. s = pre @ h # CHR '':'' # m # post \<and> isDigit h \<and> isDigit m)"
proof (induction s)
  case Nil
  then show ?case by simp
next
  case (Cons c s)
  show ?case
  proof (cases "timeRegex_at (c # s)")
    case (Some a)
    then have "timeRegex_at (c # s) \<noteq> None" by simp
    from timeRegex_at_contains[OF this] Some show ?thesis by simp
  next
    case None
    have "(\<exists>pre h m post. c # s = pre @ h # CHR '':'' # m # post \<and> isDigit h \<and> isDigit m)
          \<longleftrightarrow> (\<exists>pre h m post. s = pre @ h # CHR '':'' # m # post \<and> isDigit h \<and> isDigit m)"
      (is "?L \<longleftrightarrow> ?R")
    proof
      assume ?L
      then obtain pre h m post where d: "c # s = pre @ h # CHR '':'' # m # post"
        "isDigit h" "isDigit m" by blast
      show ?R
      proof (cases pre)
        case Nil
        with d None timeRegex_at_head[of h m post] show ?thesis by simp
      next
        case (Cons a pre')
        with d show ?thesis by auto
      qed
    next
      assume ?R
      then obtain pre h m post where "s = pre @ h # CHR '':'' # m # post"
        "isDigit h" "isDigit m" by blast
      then have "c # s = (c # pre) @ h # CHR '':'' # m # post" by simp
      with \<open>isDigit h\<close> \<open>isDigit m\<close> show ?L by blast
    qed
    with None Cons.IH show ?thesis by simp
  qed
qed

lemma digitVal_digit: "d < 10 \<Longrightarrow> digitVal (''0123456789'' ! d) = d"
proof -
  assume "d < 10"
  then have "d \<in> {0,1,2,3,4,5,6,7,8,9}" by auto
  then show ?thesis by (auto simp: digitVal_def)
qed

lemma isDigit_digit: "d < 10 \<Longrightarrow> isDigit (''0123456789'' ! d)"
proof -
  assume "d < 10"
  then have "d \<in> {0,1,2,3,4,5,6,7,8,9}" by auto
  then show ?thesis by (auto simp: isDigit_def)
qed

lemma parseInt_snoc: "parseInt (s @ [c]) = 10 * parseInt s + digitVal c"
  by (simp add: parseInt_def)

lemma parseInt_digitsOf: "parseInt (digitsOf n) = n"
proof (induction n rule: digitsOf.induct)
  case (1 n)
  show ?case
  proof (cases "n < 10")
    case True
    then show ?thesis
      by (subst digitsOf.simps) (simp add: parseInt_def digitVal_digit del: nth_Cons_numeral)
  next
    case False
    with 1 have "parseInt (digitsOf (n div 10)) = n div 10" by simp
    with False show ?thesis
      by (subst digitsOf.simps) (simp add: parseInt_snoc digitVal_digit)
  qed
qed

lemma digits_digitsOf: "list_all isDigit (digitsOf n)"
proof (induction n rule: digitsOf.induct)
  case (1 n)
  show ?case
  proof (cases "n < 10")
    case True
    then show ?thesis using isDigit_digit[of n] by (subst digitsOf.simps) simp
  next
    case False
    with 1 have "list_all isDigit (digitsOf (n div 10))" by simp
    with False show ?thesis
      using isDigit_digit[of "n mod 10"]
      by (subst digitsOf.simps) (simp)
  qed
qed

lemma digitsOf_nonempty: "digitsOf n \<noteq> []"
  by (subst digitsOf.simps) simp

lemma parseInt_zeros: "parseInt (replicate k (CHR ''0'') @ s) = parseInt s"
proof -
  have "foldl (\<lambda>n c. 10 * n + digitVal c) 0 (replicate k (CHR ''0'')) = 0"
    by (induction k) (simp_all add: digitVal_def)
  then show ?thesis by (simp add: parseInt_def)
qed

lemma toUpperCase_period: "p = ''AM'' \<or> p = ''PM'' \<Longrightarrow> toUpperCase p = p"
  by (auto simp: toUpperCase_def toUpperCase_char_APM)

lemma startTime24_period:
  assumes "list_all isDigit hs" "hs \<noteq> []" "list_all isDigit ms" "ms \<noteq> []"
    and "p = ''AM'' \<or> p = ''PM''"
  shows "startTime24 (hs @ '':'' @ ms @ '' '' @ p) = Some (hour24 p (parseInt hs), parseInt ms)"
  using timeRegex_match_at[OF timeRegex_at_period[OF assms]] toUpperCase_period[OF assms(5)]
  by (simp add: startTime24_def)

lemma startTime24_plain:
  assumes "list_all isDigit hs" "hs \<noteq> []" "list_all isDigit ms" "ms \<noteq> []"
  shows "startTime24 (hs @ '':'' @ ms) = Some (parseInt hs, parseInt ms)"
  using timeRegex_match_at[OF timeRegex_at_plain[OF assms]]
  by (simp add: startTime24_def hour24_def)

lemma slotTime24_period:
  assumes "list_all isDigit hs" "hs \<noteq> []" "list_all isDigit ms" "ms \<noteq> []"
    and "p = ''AM'' \<or> p = ''PM''"
  shows "slotTime24 (hs @ '':'' @ ms @ '' '' @ p) = Some (hour24 p (parseInt hs), ms)"
  using slotRegex_match_at[OF slotRegex_at_period[OF assms]]
  by (simp add: slotTime24_def)

lemma hour24_cases:
  "hour24 p h = (if p = ''PM'' \<and> h \<noteq> 12 then h + 12 else if p = ''AM'' \<and> h = 12 then 0 else h)"
  by (auto simp: hour24_def)

lemma canCancelBooking_iff:
  "canCancelBooking newDate tz now b \<longleftrightarrow>
     (\<exists>hour minute start. startTime24 (start_time b) = Some (hour, minute)
        \<and> setHours tz hour minute (newDate (booking_date b)) = Some start
        \<and> 7 * msPerHour \<le> start - now)"
  by (auto simp: canCancelBooking_def msPerHour_def Let_def split: option.splits)

lemma or0_id: "or0 x = x"
  by (simp add: or0_def)

lemma pow2_pos: "0 < pow2 e"
  by (simp add: pow2_def)

lemma roundHalfEven_int: "roundHalfEven (of_int j) = j"
  by (simp add: roundHalfEven_def)

lemma floorLog2_int:
  assumes "0 < k"
  shows "pow2 (floorLog2 (of_int k)) \<le> of_int k"
proof -
  let ?e = "bitlen k - 1"
  have b: "2 ^ nat ?e \<le> k"
    using bitlen_bounds[OF assms] by simp
  have L: "0 \<le> ?e"
    using assms bitlen_bounds[OF assms] by (cases "bitlen k \<le> 0") simp_all
  have "(2::rat) ^ nat ?e = of_int (2 ^ nat ?e)" by simp
  also have "\<dots> \<le> of_int k" using b by (simp only: of_int_le_iff)
  finally have le: "(2::rat) ^ nat ?e \<le> of_int k" .
  have p: "pow2 ?e = 2 ^ nat ?e"
    using L by (simp add: pow2_def)
  have c: "pow2 ?e \<le> of_int k"
    using le p by (simp only:)
  have q: "quotient_of (of_int k :: rat) = (k, 1)"
    by (rule quotient_of_rat_of_int)
  have one: "bitlen 1 = 1"
    by (simp add: bitlen_alt_def)
  have "floorLog2 (of_int k) = (if pow2 ?e \<le> of_int k then ?e else ?e - 1)"
    by (simp only: floorLog2_def q prod.case Let_def one)
  then have "floorLog2 (of_int k) = ?e"
    by (simp only: c if_True)
  with c show ?thesis by (simp only:)
qed

lemma of_int_le_2_53: "(of_int k :: rat) \<le> 2 ^ 53 \<longleftrightarrow> k \<le> 2 ^ 53"
proof -
  have "(2::rat) ^ 53 = of_int (2 ^ 53)" by simp
  then show ?thesis by (simp only: of_int_le_iff)
qed

lemma of_int_ge_2_53: "(2::rat) ^ 53 \<le> of_int k \<longleftrightarrow> 2 ^ 53 \<le> k"
proof -
  have "(2::rat) ^ 53 = of_int (2 ^ 53)" by simp
  then show ?thesis by (simp only: of_int_le_iff)
qed

lemma pow2_nonneg_eq: "0 \<le> e \<Longrightarrow> pow2 e = 2 ^ nat e"
  by (simp add: pow2_def)

lemma pow2_nonpos_eq: "e \<le> 0 \<Longrightarrow> pow2 e = 1 / 2 ^ nat (- e)"
  by (cases "e = 0") (simp_all add: pow2_def)

lemma scaled_int:
  assumes "0 < k" "k \<le> 2 ^ 53" "pow2 e \<le> of_int k" "q = max (e - 52) (- 1074)"
  shows "\<exists>j. (of_int k :: rat) / pow2 q = of_int j"
proof (cases "q \<le> 0")
  case True
  then have "(of_int k :: rat) / pow2 q = of_int (k * 2 ^ nat (- q))"
    by (simp add: pow2_nonpos_eq)
  then show ?thesis by blast
next
  case False
  then have e53: "53 \<le> e" using assms(4) by simp
  then have pe: "pow2 e = 2 ^ nat e" by (simp add: pow2_nonneg_eq)
  have "53 \<le> nat e" using e53 by simp
  then have "(2::rat) ^ 53 \<le> 2 ^ nat e"
    by (rule power_increasing) simp
  then have "(2::rat) ^ 53 \<le> of_int k" using assms(3) pe by (simp only:)
  then have "(2::int) ^ 53 \<le> k" by (simp only: of_int_ge_2_53)
  with assms(2) have k53: "k = 2 ^ 53" by (rule order.antisym)
  have "(2::rat) ^ nat e \<le> of_int k" using assms(3) pe by (simp only:)
  also have "(of_int k :: rat) = 2 ^ 53" unfolding k53 by simp
  finally have "(2::rat) ^ nat e \<le> 2 ^ 53" .
  then have "nat e \<le> 53" by (rule power_le_imp_le_exp[rotated]) simp
  with e53 have "e = 53" by simp
  then have q1: "q = 1" using assms(4) by simp
  have "pow2 1 = 2" by (simp add: pow2_def)
  then have "(of_int k :: rat) / pow2 q = of_int (2 ^ 52)"
    unfolding q1 k53 by simp
  then show ?thesis by blast
qed

lemma roundDouble_int:
  assumes "x \<in> \<int>" "\<bar>x\<bar> \<le> 2 ^ 53"
  shows "roundDouble x = x"
proof (cases "x = 0")
  case True
  then show ?thesis by (simp add: roundDouble_def)
next
  case False
  from assms(1) obtain n where n: "x = of_int n" by (rule Ints_cases)
  define k where "k = \<bar>n\<bar>"
  have k: "0 < k" "\<bar>x\<bar> = of_int k" using False n by (simp_all add: k_def)
  have kb: "k \<le> 2 ^ 53"
    using assms(2) unfolding k(2) by (simp only: of_int_le_2_53)
  define e where "e = floorLog2 (of_int k)"
  define q where "q = max (e - 52) (- 1074)"
  have lo: "pow2 e \<le> of_int k" unfolding e_def by (rule floorLog2_int[OF k(1)])
  from scaled_int[OF k(1) kb lo q_def]
  obtain j where j: "(of_int k :: rat) / pow2 q = of_int j" by blast
  have "roundDouble x = sgn x * of_int (roundHalfEven (\<bar>x\<bar> / pow2 (max (floorLog2 \<bar>x\<bar> - 52) (- 1074))))
          * pow2 (max (floorLog2 \<bar>x\<bar> - 52) (- 1074))"
    using False by (simp only: roundDouble_def Let_def if_False)
  also have "\<dots> = sgn x * of_int (roundHalfEven ((of_int k :: rat) / pow2 q)) * pow2 q"
    unfolding k(2) q_def e_def ..
  also have "\<dots> = sgn x * of_int j * pow2 q"
    unfolding j roundHalfEven_int ..
  also have "\<dots> = sgn x * ((of_int k :: rat) / pow2 q) * pow2 q" by (simp only: j)
  also have "\<dots> = sgn x * of_int k" using pow2_pos[of q] by simp
  also have "\<dots> = sgn x * \<bar>x\<bar>" by (simp only: k(2))
  also have "\<dots> = x" by (simp add: sgn_mult_abs)
  finally show ?thesis .
qed

lemma plus_double_exact:
  assumes "a \<in> \<int>" "b \<in> \<int>" "0 \<le> a" "0 \<le> b" "a + b \<le> 2 ^ 53"
  shows "plus_double a b = a + b"
proof -
  have "a + b \<in> \<int>" using assms(1,2) by (rule Ints_add)
  moreover have "\<bar>a + b\<bar> \<le> 2 ^ 53" using assms(3,4,5) by simp
  ultimately show ?thesis unfolding plus_double_def by (rule roundDouble_int)
qed

lemma foldl_revenue:
  assumes "a \<in> \<int>" "0 \<le> a"
    and "\<forall>b \<in> set bs. status b \<noteq> ''cancelled'' \<longrightarrow> total_price b \<in> \<int> \<and> 0 \<le> total_price b"
    and "a + sum_list (map total_price (filter (\<lambda>b. status b \<noteq> ''cancelled'') bs)) \<le> 2 ^ 53"
  shows "foldl (\<lambda>sum booking.
                  if status booking \<noteq> ''cancelled''
                  then plus_double sum (or0 (total_price booking))
                  else sum) a bs
         = a + sum_list (map total_price (filter (\<lambda>b. status b \<noteq> ''cancelled'') bs))"
  using assms
proof (induction bs arbitrary: a)
  case Nil
  then show ?case by simp
next
  case (Cons b bs)
  let ?rest = "sum_list (map total_price (filter (\<lambda>b. status b \<noteq> ''cancelled'') bs))"
  have all: "\<forall>b \<in> set bs. status b \<noteq> ''cancelled'' \<longrightarrow> total_price b \<in> \<int> \<and> 0 \<le> total_price b"
    using Cons.prems(3) by simp
  show ?case
  proof (cases "status b = ''cancelled''")
    case True
    with Cons.prems(4) have "a + ?rest \<le> 2 ^ 53" by simp
    from Cons.IH[OF Cons.prems(1) Cons.prems(2) all this] True show ?thesis by simp
  next
    case False
    have r: "0 \<le> ?rest"
      by (rule sum_list_nonneg) (use all in auto)
    have pb: "total_price b \<in> \<int>" "0 \<le> total_price b"
      using Cons.prems(3) False by simp_all
    have le: "a + total_price b + ?rest \<le> 2 ^ 53"
      using Cons.prems(4) False by (simp add: add.assoc)
    then have le1: "a + total_price b \<le> 2 ^ 53"
      using r by linarith
    have step: "plus_double a (or0 (total_price b)) = a + total_price b"
      unfolding or0_id by (rule plus_double_exact[OF Cons.prems(1) pb(1) Cons.prems(2) pb(2) le1])
    have i: "a + total_price b \<in> \<int>" using Cons.prems(1) pb(1) by (rule Ints_add)
    have n: "0 \<le> a + total_price b" using Cons.prems(2) pb(2) by simp
    from Cons.IH[OF i n all le] False step show ?thesis by (simp add: add.assoc)
  qed
qed

lemma foldl_revenue_filter:
  "foldl (\<lambda>sum booking.
            if status booking \<noteq> ''cancelled''
            then plus_double sum (or0 (total_price booking))
            else sum) a bs
   = foldl (\<lambda>sum booking.
              if status booking \<noteq> ''cancelled''
              then plus_double sum (or0 (total_price booking))
              else sum) a (filter (\<lambda>b. status b \<noteq> ''cancelled'') bs)"
  by (induction bs arbitrary: a) simp_all

lemma setHours_same_day:
  assumes "d mod msPerDay = 0" "0 \<le> tz" "tz < msPerDay"
    and "start = d + int hour * msPerHour + int minute * msPerMinute - tz"
    and "\<bar>start\<bar> \<le> 8640000000000000"
  shows "setHours tz hour minute (Some d) = Some start"
proof -
  from assms(1) obtain k where k: "d = 86400000 * k"
    by (auto simp: msPerDay_def)
  have "(86400000 * k + tz) div 86400000 = k"
    using assms(2,3) by (simp add: msPerDay_def)
  then have "((d + tz) div msPerDay) * msPerDay = d"
    by (simp add: k msPerDay_def)
  then show ?thesis
    using assms(4,5) by (simp add: setHours_def TimeClip_def)
qed

lemma midnight_ge_iff:
  fixes t now :: int
  assumes "t mod msPerDay = 0"
  shows "now \<le> t \<longleftrightarrow> now div msPerDay < t div msPerDay \<or> t = now"
proof -
  have D: "(0::int) < 86400000" by simp
  from assms obtain k where k: "t = k * 86400000" by (auto simp: msPerDay_def)
  have "now = 86400000 * (now div 86400000) + now mod 86400000" by simp
  moreover have "0 \<le> now mod 86400000" "now mod 86400000 < 86400000" by simp_all
  ultimately have "now div 86400000 < k \<longleftrightarrow> now < k * 86400000"
    by linarith
  then show ?thesis using k by (auto simp: msPerDay_def)
qed

lemma example_ms:
  "msPerHour = 3600000" "msPerMinute = 60000" "msPerDay = 86400000"
  by (simp_all add: msPerHour_def msPerMinute_def msPerDay_def)

lemma example_dates:
  "newDate_dateOnly ''2024-06-10'' = Some 1717977600000"
  "newDate_dateOnly ''2024-06-11'' = Some 1718064000000"
  by code_simp+

lemma example_times:
  "startTime24 ''03:00 PM'' = Some (15, 0)"
  "startTime24 ''14:30'' = Some (14, 30)"
  "timeRegex_match ''9 AM'' = None"
  by code_simp+

lemma example_setHours:
  "setHours 0 15 0 (Some 1717977600000) = Some 1718031600000"
  "setHours 0 14 30 (Some 1717977600000) = Some 1718029800000"
  "setHours (- 18000000) 15 0 (Some 1717977600000) = Some 1717963200000"
  by code_simp+

lemma exampleBooking_fields:
  "id' (exampleBooking bid day start st) = bid"
  "booking_date (exampleBooking bid day start st) = day"
  "start_time (exampleBooking bid day start st) = start"
  "status (exampleBooking bid day start st) = st"
  "total_price (exampleBooking bid day start st) = 1200"
  by (simp_all add: exampleBooking_def)


section \<open>The cancellation window\<close>

text \<open>
  C1, as amended. Take a booking whose start time is a clock string \<open>h:mm AM\<close> or
  \<open>h:mm PM\<close> with \<open>h\<close> from 1 to 12, whose date is read as the midnight UTC that begins
  it, in a time zone at or east of UTC. The booking's start instant is that date at the
  parsed hour and minute of local time. For every current instant the eligibility check
  returns true if and only if the start instant minus now is at least seven hours: at
  exactly seven hours it returns true, at six hours and fifty-nine minutes false. The
  check does not look at the booking's status; the status is tested where the check is
  used, and the Cancel Booking button is offered if and only if the status is not
  cancelled and the difference is at least seven hours.
\<close>

theorem canCancelBooking_window:
  assumes "list_all isDigit hs" "hs \<noteq> []" "list_all isDigit ms" "ms \<noteq> []"
    and "1 \<le> parseInt hs" "parseInt hs \<le> 12" "parseInt ms \<le> 59"
    and "p = ''AM'' \<or> p = ''PM''"
    and "start_time b = hs @ '':'' @ ms @ '' '' @ p"
    and "newDate (booking_date b) = Some d" "d mod msPerDay = 0"
    and "0 \<le> tz" "tz < msPerDay"
    and "start = d + int (hour24 p (parseInt hs)) * msPerHour
                   + int (parseInt ms) * msPerMinute - tz"
    and "\<bar>start\<bar> \<le> 8640000000000000"
  shows "(canCancelBooking newDate tz now b \<longleftrightarrow> 7 * msPerHour \<le> start - now)
         \<and> (cancelButtonShown newDate tz now b \<longleftrightarrow>
               status b \<noteq> ''cancelled'' \<and> 7 * msPerHour \<le> start - now)
         \<and> canCancelBooking newDate tz (start - 7 * msPerHour) b
         \<and> \<not> canCancelBooking newDate tz (start - (6 * msPerHour + 59 * msPerMinute)) b"
proof -
  have t: "startTime24 (start_time b) = Some (hour24 p (parseInt hs), parseInt ms)"
    unfolding assms(9) by (rule startTime24_period[OF assms(1-4,8)])
  have s: "setHours tz (hour24 p (parseInt hs)) (parseInt ms) (newDate (booking_date b))
             = Some start"
    unfolding assms(10) by (rule setHours_same_day[OF assms(11-15)])
  have c: "canCancelBooking newDate tz n b \<longleftrightarrow> 7 * msPerHour \<le> start - n" for n
    by (simp add: canCancelBooking_iff t s)
  show ?thesis
    by (simp add: c cancelButtonShown_def example_ms)
qed

text \<open>
  In India, five and a half hours east of UTC, the booking of 2024-06-10 at 03:00 PM
  starts at 09:30 UTC; it is seen at 02:30 and at 02:31 UTC of that day.
\<close>

theorem canCancelBooking_window_witness:
  "canCancelBooking newDate_dateOnly 19800000 1717986600000
     (exampleBooking ''b1'' ''2024-06-10'' ''03:00 PM'' ''confirmed'')
   \<and> cancelButtonShown newDate_dateOnly 19800000 1717986600000
     (exampleBooking ''b1'' ''2024-06-10'' ''03:00 PM'' ''confirmed'')
   \<and> \<not> canCancelBooking newDate_dateOnly 19800000 1717986660000
     (exampleBooking ''b1'' ''2024-06-10'' ''03:00 PM'' ''confirmed'')"
proof -
  let ?b = "exampleBooking ''b1'' ''2024-06-10'' ''03:00 PM'' ''confirmed''"
  have a: "parseInt ''03'' = 3" "parseInt ''00'' = 0"
    by (simp_all add: parseInt_def digitVal_def)
  have d: "list_all isDigit ''03''" "''03'' \<noteq> []" "list_all isDigit ''00''" "''00'' \<noteq> []"
    by (simp_all add: isDigit_def)
  have h: "1 \<le> parseInt ''03''" "parseInt ''03'' \<le> 12" "parseInt ''00'' \<le> 59"
    by (simp_all add: a)
  have p: "''PM'' = ''AM'' \<or> ''PM'' = ''PM''"
    by simp
  have s: "start_time ?b = ''03'' @ '':'' @ ''00'' @ '' '' @ ''PM''"
    by (simp add: exampleBooking_fields)
  have n: "newDate_dateOnly (booking_date ?b) = Some 1717977600000"
    by (simp add: exampleBooking_fields example_dates)
  have z: "(1717977600000::int) mod msPerDay = 0" "(0::int) \<le> 19800000"
    "(19800000::int) < msPerDay"
    by (simp_all add: example_ms)
  have e: "(1718011800000::int) = 1717977600000 + int (hour24 ''PM'' (parseInt ''03'')) * msPerHour
             + int (parseInt ''00'') * msPerMinute - 19800000"
    by (simp add: a hour24_def example_ms)
  have v: "\<bar>1718011800000::int\<bar> \<le> 8640000000000000"
    by simp
  note t = canCancelBooking_window[where newDate = newDate_dateOnly and now = 1717986600000
      and start = 1718011800000 and tz = 19800000 and d = 1717977600000, OF d h p s n z e v]
  have st: "status ?b \<noteq> ''cancelled''"
    by (simp add: exampleBooking_fields)
  from t st show ?thesis
    by (simp add: example_ms)
qed

text \<open>
  The claim as stated fails on a cancelled booking whose start lies seven hours ahead: the
  check returns true.
\<close>

theorem canCancelBooking_status_counterexample:
  "status (exampleBooking ''b1'' ''2024-06-10'' ''03:00 PM'' ''cancelled'') = ''cancelled''
   \<and> canCancelBooking newDate_dateOnly 0 1718006400000
       (exampleBooking ''b1'' ''2024-06-10'' ''03:00 PM'' ''cancelled'')"
  by (simp add: canCancelBooking_iff exampleBooking_fields example_times example_dates
        example_setHours example_ms)

text \<open>
  West of UTC the hypothesis on the time zone fails, and so does the conclusion: the day
  that \<open>setHours\<close> keeps is the local day of the instant the constructor gave, and five
  hours west of UTC the midnight UTC that begins 2024-06-10 falls on the evening of June 9.
  The start computed for a booking of 2024-06-10 at 03:00 PM is then June 9 at 03:00 PM
  local time, and at 08:00 local time of June 10, seven hours before the booking starts,
  the check returns false.
\<close>

lemma canCancelBooking_west_of_UTC:
  "setHours (- 18000000) 15 0 (newDate_dateOnly ''2024-06-10'') = Some 1717963200000
   \<and> \<not> canCancelBooking newDate_dateOnly (- 18000000) 1718024400000
         (exampleBooking ''b1'' ''2024-06-10'' ''03:00 PM'' ''confirmed'')"
  by (simp add: canCancelBooking_iff exampleBooking_fields example_times example_dates
        example_setHours example_ms)


section \<open>The 24-hour conversion\<close>

text \<open>
  C3. For a clock string \<open>h:mm AM\<close> or \<open>h:mm PM\<close> with \<open>h\<close> from 1 to 12, both places
  that convert the hour (the eligibility check and the booking handler) obtain \<open>h + 12\<close>
  when the suffix is PM and \<open>h\<close> is not 12, \<open>0\<close> when the suffix is AM and \<open>h\<close> is 12,
  and \<open>h\<close> otherwise; the result is at most 23.
\<close>

theorem hour24_of_clock_string:
  assumes "list_all isDigit hs" "hs \<noteq> []" "list_all isDigit ms" "ms \<noteq> []"
    and "1 \<le> parseInt hs" "parseInt hs \<le> 12"
    and "p = ''AM'' \<or> p = ''PM''"
    and "H = (if p = ''PM'' \<and> parseInt hs \<noteq> 12 then parseInt hs + 12
              else if p = ''AM'' \<and> parseInt hs = 12 then 0 else parseInt hs)"
  shows "startTime24 (hs @ '':'' @ ms @ '' '' @ p) = Some (H, parseInt ms)
         \<and> slotTime24 (hs @ '':'' @ ms @ '' '' @ p) = Some (H, ms)
         \<and> H \<le> 23"
proof -
  have "hour24 p (parseInt hs) = H" using assms(8) by (simp add: hour24_cases)
  moreover have "H \<le> 23" using assms(5,6,8) by (auto split: if_splits)
  ultimately show ?thesis
    using startTime24_period[OF assms(1-4,7)] slotTime24_period[OF assms(1-4,7)] by simp
qed

theorem hour24_of_clock_string_witness:
  "startTime24 ''12:30 AM'' = Some (0, 30) \<and> slotTime24 ''12:30 AM'' = Some (0, ''30'')
   \<and> startTime24 ''03:05 PM'' = Some (15, 5) \<and> slotTime24 ''03:05 PM'' = Some (15, ''05'')"
proof -
  have a: "parseInt ''12'' = 12" "parseInt ''30'' = 30" "parseInt ''03'' = 3" "parseInt ''05'' = 5"
    by (simp_all add: parseInt_def digitVal_def)
  have d: "list_all isDigit ''12''" "list_all isDigit ''30''" "list_all isDigit ''03''"
    "list_all isDigit ''05''"
    by (simp_all add: isDigit_def)
  from hour24_of_clock_string[of "''12''" "''30''" "''AM''" 0]
       hour24_of_clock_string[of "''03''" "''05''" "''PM''" 15] a d
  show ?thesis by simp
qed


section \<open>Start times the pattern does not match\<close>

text \<open>
  C4. A start time matches the pattern exactly when it contains a digit, a colon and a
  digit in a row. For a booking whose start time does not, the match is null and the
  eligibility check returns false; it has no other outcome.
\<close>

theorem canCancelBooking_malformed:
  assumes "\<not> (\<exists>pre h m post. start_time b = pre @ h # CHR '':'' # m # post
                 \<and> isDigit h \<and> isDigit m)"
  shows "timeRegex_match (start_time b) = None \<and> \<not> canCancelBooking newDate tz now b"
  using assms timeRegex_match_None_iff[of "start_time b"]
  by (simp add: canCancelBooking_def startTime24_def)

theorem canCancelBooking_malformed_witness:
  "\<not> (\<exists>pre h m post. ''9 AM'' = pre @ h # CHR '':'' # m # post \<and> isDigit h \<and> isDigit m)
   \<and> timeRegex_match ''9 AM'' = None
   \<and> \<not> canCancelBooking newDate_dateOnly 0 0
         (exampleBooking ''b1'' ''2024-06-10'' ''9 AM'' ''confirmed'')"
proof -
  let ?b = "exampleBooking ''b1'' ''2024-06-10'' ''9 AM'' ''confirmed''"
  have s: "start_time ?b = ''9 AM''"
    by (rule exampleBooking_fields)
  have "\<not> (\<exists>pre h m post. ''9 AM'' = pre @ h # CHR '':'' # m # post \<and> isDigit h \<and> isDigit m)"
    using timeRegex_match_None_iff[of "''9 AM''"] example_times(3) by blast
  then have h: "\<not> (\<exists>pre h m post. start_time ?b = pre @ h # CHR '':'' # m # post
                 \<and> isDigit h \<and> isDigit m)"
    unfolding s .
  from canCancelBooking_malformed[OF h, of newDate_dateOnly 0 0] h
  show ?thesis unfolding s by blast
qed


section \<open>Start times without a suffix\<close>

text \<open>
  C10. A start time \<open>H:MM\<close> with no AM or PM suffix, such as 14:30, is not treated as
  malformed: the pattern matches it with the suffix group absent, the hour is kept as it
  is, and the eligibility check is the seven-hour test on the start instant computed from
  that hour and minute.
\<close>

theorem canCancelBooking_no_suffix:
  assumes "list_all isDigit hs" "hs \<noteq> []" "list_all isDigit ms" "ms \<noteq> []"
    and "start_time b = hs @ '':'' @ ms"
  shows "timeRegex_match (start_time b) = Some (hs, ms, None, None)
         \<and> startTime24 (start_time b) = Some (parseInt hs, parseInt ms)
         \<and> canCancelBooking newDate tz now b =
             (case setHours tz (parseInt hs) (parseInt ms) (newDate (booking_date b)) of
                None \<Rightarrow> False
              | Some start \<Rightarrow> 7 * msPerHour \<le> start - now)"
  using timeRegex_match_at[OF timeRegex_at_plain[OF assms(1-4)]]
    startTime24_plain[OF assms(1-4)] assms(5)
  by (auto simp: canCancelBooking_iff split: option.splits)

theorem canCancelBooking_no_suffix_witness:
  "timeRegex_match ''14:30'' = Some (''14'', ''30'', None, None)
   \<and> startTime24 ''14:30'' = Some (14, 30)
   \<and> canCancelBooking newDate_dateOnly 0 1717977600000
        (exampleBooking ''b1'' ''2024-06-10'' ''14:30'' ''confirmed'')"
proof -
  let ?b = "exampleBooking ''b1'' ''2024-06-10'' ''14:30'' ''confirmed''"
  have a: "parseInt ''14'' = 14" "parseInt ''30'' = 30"
    by (simp_all add: parseInt_def digitVal_def)
  have d: "list_all isDigit ''14''" "''14'' \<noteq> []" "list_all isDigit ''30''" "''30'' \<noteq> []"
    by (simp_all add: isDigit_def)
  have s: "start_time ?b = ''14'' @ '':'' @ ''30''"
    by (simp add: exampleBooking_fields)
  have t: "setHours 0 14 30 (newDate_dateOnly (booking_date ?b)) = Some 1718029800000"
    by (simp add: exampleBooking_fields example_dates example_setHours)
  from canCancelBooking_no_suffix[OF d s, of newDate_dateOnly 0 1717977600000]
  show ?thesis
    unfolding a t by (simp add: exampleBooking_fields example_ms)
qed


section \<open>Requests to cancel\<close>

lemma handleCancelConfirm_marks:
  assumes "confirmCancelId st = Some cid" "cid \<noteq> []"
    and "selectError net = None" "updateError net = None"
    and "filter (\<lambda>b. id' b = cid) (rows be) = [r]"
  shows "rows (fst (handleCancelConfirm net user (be, st))) = markCancelled cid (rows be)"
  using assms
  by (simp add: handleCancelConfirm_def cancelConfirm_try_def Let_def
        split: option.splits invokeResult.splits)

text \<open>
  C9, as amended. When no booking of the loaded list has the requested id, and the id is
  not the empty string, the handler of a cancel request applies no eligibility check:
  whatever the date parser, the time zone and the current instant, it shows no toast and
  only sets the pending-cancel id, which opens the confirmation. Confirming then sets the
  status of the table's row of that id to cancelled, if the table has exactly one and the
  backend accepts the two queries.
\<close>

theorem handleCancelRequest_unknown_id:
  assumes "bookingId \<notin> id' ` set (bookings st)" "bookingId \<noteq> []"
  shows "handleCancelRequest newDate tz now bookingId st = st\<lparr>confirmCancelId := Some bookingId\<rparr>
         \<and> cancelDialogOpen (handleCancelRequest newDate tz now bookingId st)
         \<and> (selectError net = None \<longrightarrow> updateError net = None \<longrightarrow>
              filter (\<lambda>b. id' b = bookingId) (rows be) = [r] \<longrightarrow>
                rows (fst (handleCancelConfirm net user
                            (be, handleCancelRequest newDate tz now bookingId st)))
                  = markCancelled bookingId (rows be))"
proof -
  have "find (\<lambda>b. id' b = bookingId) (bookings st) = None"
    using assms(1) by (auto simp: find_None_iff)
  then have 1: "handleCancelRequest newDate tz now bookingId st
                  = st\<lparr>confirmCancelId := Some bookingId\<rparr>"
    by (simp add: handleCancelRequest_def)
  have 2: "cancelDialogOpen (st\<lparr>confirmCancelId := Some bookingId\<rparr>)"
    using assms(2) by (simp add: cancelDialogOpen_def)
  have "confirmCancelId (st\<lparr>confirmCancelId := Some bookingId\<rparr>) = Some bookingId"
    by simp
  from handleCancelConfirm_marks[OF this assms(2)] 1 2 show ?thesis
    by simp
qed

text \<open>
  The page holds booking b1 only; the table also holds booking zz, whose start is the
  current instant.
\<close>

theorem handleCancelRequest_unknown_id_witness:
  "''zz'' \<notin> id' ` set (bookings
       (examplePage [exampleBooking ''b1'' ''2024-06-10'' ''03:00 PM'' ''confirmed''] None))
   \<and> handleCancelRequest newDate_dateOnly 0 1718031600000 ''zz''
       (examplePage [exampleBooking ''b1'' ''2024-06-10'' ''03:00 PM'' ''confirmed''] None)
     = examplePage [exampleBooking ''b1'' ''2024-06-10'' ''03:00 PM'' ''confirmed'']
         (Some ''zz'')
   \<and> cancelDialogOpen
       (examplePage [exampleBooking ''b1'' ''2024-06-10'' ''03:00 PM'' ''confirmed'']
          (Some ''zz''))
   \<and> rows (fst (handleCancelConfirm (exampleAnswers (Resolved None)) (Some exampleUser)
        (\<lparr>rows = [exampleBooking ''b1'' ''2024-06-10'' ''03:00 PM'' ''confirmed'',
                  exampleBooking ''zz'' ''2024-06-10'' ''03:00 PM'' ''confirmed''],
          invoked = []\<rparr>,
         handleCancelRequest newDate_dateOnly 0 1718031600000 ''zz''
           (examplePage [exampleBooking ''b1'' ''2024-06-10'' ''03:00 PM'' ''confirmed'']
              None))))
     = [exampleBooking ''b1'' ''2024-06-10'' ''03:00 PM'' ''confirmed'',
        exampleBooking ''zz'' ''2024-06-10'' ''03:00 PM'' ''cancelled'']"
proof -
  let ?st = "examplePage [exampleBooking ''b1'' ''2024-06-10'' ''03:00 PM'' ''confirmed''] None"
  let ?be = "\<lparr>rows = [exampleBooking ''b1'' ''2024-06-10'' ''03:00 PM'' ''confirmed'',
                       exampleBooking ''zz'' ''2024-06-10'' ''03:00 PM'' ''confirmed''],
               invoked = []\<rparr>"
  have h: "''zz'' \<notin> id' ` set (bookings ?st)"
    by (simp add: examplePage_def exampleBooking_fields)
  have ne: "''zz'' \<noteq> []"
    by simp
  have q: "selectError (exampleAnswers (Resolved None)) = None"
    "updateError (exampleAnswers (Resolved None)) = None"
    "filter (\<lambda>b. id' b = ''zz'') (rows ?be)
       = [exampleBooking ''zz'' ''2024-06-10'' ''03:00 PM'' ''confirmed'']"
    by (simp_all add: exampleAnswers_def exampleBooking_fields)
  have c: "markCancelled ''zz'' (rows ?be)
       = [exampleBooking ''b1'' ''2024-06-10'' ''03:00 PM'' ''confirmed'',
          exampleBooking ''zz'' ''2024-06-10'' ''03:00 PM'' ''cancelled'']"
    by (simp add: markCancelled_def exampleBooking_def)
  have e: "?st\<lparr>confirmCancelId := Some ''zz''\<rparr>
       = examplePage [exampleBooking ''b1'' ''2024-06-10'' ''03:00 PM'' ''confirmed'']
           (Some ''zz'')"
    by (simp add: examplePage_def)
  note t = handleCancelRequest_unknown_id[OF h ne, of newDate_dateOnly 0 1718031600000
         "exampleAnswers (Resolved None)" ?be
         "exampleBooking ''zz'' ''2024-06-10'' ''03:00 PM'' ''confirmed''" "Some exampleUser"]
  from t have a: "handleCancelRequest newDate_dateOnly 0 1718031600000 ''zz'' ?st
       = ?st\<lparr>confirmCancelId := Some ''zz''\<rparr>"
    by blast
  from t have o: "cancelDialogOpen (handleCancelRequest newDate_dateOnly 0 1718031600000 ''zz'' ?st)"
    by blast
  from t q have b: "rows (fst (handleCancelConfirm (exampleAnswers (Resolved None))
         (Some exampleUser)
         (?be, handleCancelRequest newDate_dateOnly 0 1718031600000 ''zz'' ?st)))
       = markCancelled ''zz'' (rows ?be)"
    by blast
  show ?thesis
  proof (intro conjI)
    show "''zz'' \<notin> id' ` set (bookings ?st)"
      by (rule h)
    show "handleCancelRequest newDate_dateOnly 0 1718031600000 ''zz'' ?st
       = examplePage [exampleBooking ''b1'' ''2024-06-10'' ''03:00 PM'' ''confirmed'']
           (Some ''zz'')"
      by (simp only: a e)
    show "cancelDialogOpen
       (examplePage [exampleBooking ''b1'' ''2024-06-10'' ''03:00 PM'' ''confirmed'']
          (Some ''zz''))"
      using o by (simp only: a e)
    show "rows (fst (handleCancelConfirm (exampleAnswers (Resolved None))
         (Some exampleUser)
         (?be, handleCancelRequest newDate_dateOnly 0 1718031600000 ''zz'' ?st)))
       = [exampleBooking ''b1'' ''2024-06-10'' ''03:00 PM'' ''confirmed'',
          exampleBooking ''zz'' ''2024-06-10'' ''03:00 PM'' ''cancelled'']"
      by (simp only: b c)
  qed
qed

text \<open>
  The claim as stated fails at the empty id. The handler sets the pending-cancel id to the
  empty string, which is falsy: the confirmation stays closed, and the handler of the
  confirmation returns at once, so that the table's row of that id keeps its status.
\<close>

theorem handleCancelRequest_empty_id_counterexample:
  "[] \<notin> id' ` set (bookings
       (examplePage [exampleBooking ''b1'' ''2024-06-10'' ''03:00 PM'' ''confirmed''] None))
   \<and> handleCancelRequest newDate_dateOnly 0 1718031600000 []
       (examplePage [exampleBooking ''b1'' ''2024-06-10'' ''03:00 PM'' ''confirmed''] None)
     = examplePage [exampleBooking ''b1'' ''2024-06-10'' ''03:00 PM'' ''confirmed''] (Some [])
   \<and> \<not> cancelDialogOpen
       (examplePage [exampleBooking ''b1'' ''2024-06-10'' ''03:00 PM'' ''confirmed''] (Some []))
   \<and> rows (fst (handleCancelConfirm (exampleAnswers (Resolved None)) (Some exampleUser)
        (\<lparr>rows = [exampleBooking [] ''2024-06-10'' ''03:00 PM'' ''confirmed''], invoked = []\<rparr>,
         examplePage [exampleBooking ''b1'' ''2024-06-10'' ''03:00 PM'' ''confirmed'']
           (Some []))))
     = [exampleBooking [] ''2024-06-10'' ''03:00 PM'' ''confirmed'']"
  by (simp add: handleCancelRequest_def handleCancelConfirm_def cancelDialogOpen_def
        examplePage_def exampleBooking_fields)


section \<open>Revenue and active bookings\<close>

text \<open>
  C7, as amended. The total revenue of the dashboard counts nothing for a cancelled
  booking. Where the total prices of the bookings that are not cancelled are whole
  numbers, not negative, whose sum is at most \<open>2 ^ 53\<close>, it is the exact sum of these
  prices.
\<close>

theorem totalRevenue_sum:
  "totalRevenue bs = totalRevenue (filter (\<lambda>b. status b \<noteq> ''cancelled'') bs)
   \<and> ((\<forall>b \<in> set bs. status b \<noteq> ''cancelled'' \<longrightarrow> total_price b \<in> \<int> \<and> 0 \<le> total_price b) \<longrightarrow>
        sum_list (map total_price (filter (\<lambda>b. status b \<noteq> ''cancelled'') bs)) \<le> 2 ^ 53 \<longrightarrow>
        totalRevenue bs
          = sum_list (map total_price (filter (\<lambda>b. status b \<noteq> ''cancelled'') bs)))"
proof -
  let ?f = "\<lambda>sum booking.
              if status booking \<noteq> ''cancelled''
              then plus_double sum (or0 (total_price booking))
              else sum"
  let ?S = "sum_list (map total_price (filter (\<lambda>b. status b \<noteq> ''cancelled'') bs))"
  have 1: "totalRevenue bs = ?S"
    if h: "\<forall>b \<in> set bs. status b \<noteq> ''cancelled'' \<longrightarrow> total_price b \<in> \<int> \<and> 0 \<le> total_price b"
      and s: "?S \<le> 2 ^ 53"
  proof -
    have z: "(0::rat) \<in> \<int>" "(0::rat) \<le> 0"
      by simp_all
    have b: "0 + ?S \<le> 2 ^ 53"
      using s by simp
    have f: "foldl ?f 0 bs = 0 + ?S"
      by (rule foldl_revenue[OF z h b])
    have "totalRevenue bs = or0 (foldl ?f 0 bs)"
      by (simp only: totalRevenue_def)
    also have "\<dots> = foldl ?f 0 bs"
      by (rule or0_id)
    also have "\<dots> = ?S"
      using f by simp
    finally show ?thesis .
  qed
  have 2: "totalRevenue bs = totalRevenue (filter (\<lambda>b. status b \<noteq> ''cancelled'') bs)"
    unfolding totalRevenue_def
    by (rule arg_cong[where f = or0], rule foldl_revenue_filter)
  from 1 2 show ?thesis by blast
qed

theorem totalRevenue_sum_witness:
  "totalRevenue
     [exampleBooking ''b1'' ''2024-06-10'' ''09:00 AM'' ''confirmed'',
      exampleBooking ''b2'' ''2024-06-10'' ''10:00 AM'' ''cancelled'',
      exampleBooking ''b3'' ''2024-06-11'' ''09:00 AM'' ''pending''] = 2400"
proof -
  let ?bs = "[exampleBooking ''b1'' ''2024-06-10'' ''09:00 AM'' ''confirmed'',
      exampleBooking ''b2'' ''2024-06-10'' ''10:00 AM'' ''cancelled'',
      exampleBooking ''b3'' ''2024-06-11'' ''09:00 AM'' ''pending'']"
  have h: "\<forall>b \<in> set ?bs. status b \<noteq> ''cancelled'' \<longrightarrow> total_price b \<in> \<int> \<and> 0 \<le> total_price b"
    by (simp add: exampleBooking_fields)
  have s: "sum_list (map total_price (filter (\<lambda>b. status b \<noteq> ''cancelled'') ?bs)) = 2400"
    by (simp add: exampleBooking_fields)
  then have u: "sum_list (map total_price (filter (\<lambda>b. status b \<noteq> ''cancelled'') ?bs)) \<le> 2 ^ 53"
    by (simp only:) simp
  from totalRevenue_sum[of ?bs] h u have
    "totalRevenue ?bs = sum_list (map total_price (filter (\<lambda>b. status b \<noteq> ''cancelled'') ?bs))"
    by blast
  then show ?thesis by (simp only: s)
qed

text \<open>
  The claim as stated fails where the sum is not a double: of the prices
  9007199254740992 and 1 the total revenue is 9007199254740992, and of the doubles nearest
  to 0.1 and to 0.2 it is the double nearest to their sum, not their sum.
\<close>

theorem totalRevenue_rounding_counterexample:
  "totalRevenue
     [(exampleBooking ''b1'' ''2024-06-10'' ''09:00 AM'' ''confirmed'')
        \<lparr>total_price := 9007199254740992\<rparr>,
      (exampleBooking ''b2'' ''2024-06-10'' ''10:00 AM'' ''confirmed'')\<lparr>total_price := 1\<rparr>]
     = 9007199254740992
   \<and> sum_list (map total_price (filter (\<lambda>b. status b \<noteq> ''cancelled'')
       [(exampleBooking ''b1'' ''2024-06-10'' ''09:00 AM'' ''confirmed'')
          \<lparr>total_price := 9007199254740992\<rparr>,
        (exampleBooking ''b2'' ''2024-06-10'' ''10:00 AM'' ''confirmed'')\<lparr>total_price := 1\<rparr>]))
     = 9007199254740993"
  by code_simp

lemma totalRevenue_fraction_example:
  "totalRevenue
     [(exampleBooking ''b1'' ''2024-06-10'' ''09:00 AM'' ''confirmed'')
        \<lparr>total_price := 3602879701896397 / 36028797018963968\<rparr>,
      (exampleBooking ''b2'' ''2024-06-10'' ''10:00 AM'' ''confirmed'')
        \<lparr>total_price := 3602879701896397 / 18014398509481984\<rparr>]
     = 1351079888211149 / 4503599627370496
   \<and> (3602879701896397 / 36028797018963968 + 3602879701896397 / 18014398509481984 :: rat)
     \<noteq> 1351079888211149 / 4503599627370496"
  by code_simp

text \<open>
  The active-booking count is the number of bookings whose status is not cancelled and
  whose booking date, as the instant the \<open>Date\<close> constructor gives for it, is not before
  the current instant. Where that instant is the midnight that begins the date in UTC, as
  for a date-only string, these are the bookings dated after today's UTC day, and those
  dated today only at the very instant of that midnight.
\<close>

lemma activeBookings_count:
  "activeBookings newDate now bs =
     length (filter (\<lambda>b. status b \<noteq> ''cancelled''
                          \<and> (\<exists>t. newDate (booking_date b) = Some t \<and> now \<le> t)) bs)
   \<and> ((\<forall>b \<in> set bs. \<forall>t. newDate (booking_date b) = Some t \<longrightarrow> t mod msPerDay = 0) \<longrightarrow>
        activeBookings newDate now bs =
          length (filter (\<lambda>b. status b \<noteq> ''cancelled''
                          \<and> (\<exists>t. newDate (booking_date b) = Some t
                                \<and> (now div msPerDay < t div msPerDay \<or> t = now))) bs))"
proof -
  have 1: "activeBookings newDate now bs =
     length (filter (\<lambda>b. status b \<noteq> ''cancelled''
                          \<and> (\<exists>t. newDate (booking_date b) = Some t \<and> now \<le> t)) bs)"
    unfolding activeBookings_def or0_id
    by (rule arg_cong[where f = length], rule filter_cong) (auto split: option.splits)
  have 2: "filter (\<lambda>b. status b \<noteq> ''cancelled''
                          \<and> (\<exists>t. newDate (booking_date b) = Some t \<and> now \<le> t)) bs
         = filter (\<lambda>b. status b \<noteq> ''cancelled''
                          \<and> (\<exists>t. newDate (booking_date b) = Some t
                                \<and> (now div msPerDay < t div msPerDay \<or> t = now))) bs"
    if h: "\<forall>b \<in> set bs. \<forall>t. newDate (booking_date b) = Some t \<longrightarrow> t mod msPerDay = 0"
  proof (rule filter_cong[OF refl])
    fix b assume "b \<in> set bs"
    with h have "\<And>t. newDate (booking_date b) = Some t \<Longrightarrow>
                   (now \<le> t \<longleftrightarrow> now div msPerDay < t div msPerDay \<or> t = now)"
      using midnight_ge_iff by blast
    then show "(status b \<noteq> ''cancelled''
                 \<and> (\<exists>t. newDate (booking_date b) = Some t \<and> now \<le> t))
             = (status b \<noteq> ''cancelled''
                 \<and> (\<exists>t. newDate (booking_date b) = Some t
                       \<and> (now div msPerDay < t div msPerDay \<or> t = now)))"
      by blast
  qed
  from 1 2 show ?thesis by simp
qed

lemma activeBookings_count_example:
  "activeBookings newDate_dateOnly 1718006400000
     [exampleBooking ''b1'' ''2024-06-10'' ''08:00 PM'' ''confirmed'',
      exampleBooking ''b2'' ''2024-06-11'' ''09:00 AM'' ''confirmed'',
      exampleBooking ''b3'' ''2024-06-11'' ''10:00 AM'' ''cancelled''] = 1"
proof -
  let ?bs = "[exampleBooking ''b1'' ''2024-06-10'' ''08:00 PM'' ''confirmed'',
      exampleBooking ''b2'' ''2024-06-11'' ''09:00 AM'' ''confirmed'',
      exampleBooking ''b3'' ''2024-06-11'' ''10:00 AM'' ''cancelled'']"
  have h: "\<forall>b \<in> set ?bs. \<forall>t. newDate_dateOnly (booking_date b) = Some t \<longrightarrow> t mod msPerDay = 0"
    by (simp add: exampleBooking_fields example_dates example_ms)
  from activeBookings_count[of newDate_dateOnly 1718006400000 ?bs] h
  have "activeBookings newDate_dateOnly 1718006400000 ?bs =
          length (filter (\<lambda>b. status b \<noteq> ''cancelled''
                          \<and> (\<exists>t. newDate_dateOnly (booking_date b) = Some t
                                \<and> (1718006400000 div msPerDay < t div msPerDay
                                    \<or> t = 1718006400000))) ?bs)"
    by blast
  then show ?thesis
    by (simp add: exampleBooking_fields example_dates example_ms)
qed

text \<open>
  C8. The count should take in every booking that is not cancelled and is dated today or
  later, and the code does not: it compares the midnight that begins the booking's date
  with the current instant, where the calendar of the turf page first sets the current
  instant back to midnight. At 08:00 UTC of 2024-06-10 a confirmed booking of that day at
  08:00 PM is not counted, though its date is on or after today and the booking can still
  be cancelled.
\<close>

theorem activeBookings_today:
  "activeBookings newDate_dateOnly 1718006400000
     [exampleBooking ''b1'' ''2024-06-10'' ''08:00 PM'' ''confirmed''] = 0
   \<and> activeBookings_spec newDate_dateOnly 1718006400000
     [exampleBooking ''b1'' ''2024-06-10'' ''08:00 PM'' ''confirmed''] = 1
   \<and> canCancelBooking newDate_dateOnly 0 1718006400000
     (exampleBooking ''b1'' ''2024-06-10'' ''08:00 PM'' ''confirmed'')"
  by code_simp


section \<open>The end of a slot\<close>

lemma isDigit_zero: "isDigit (CHR ''0'')"
  by (simp add: isDigit_def)

lemma padStart_digits:
  "list_all isDigit (padStart 2 (CHR ''0'') (toString n))"
  "padStart 2 (CHR ''0'') (toString n) \<noteq> []"
  "parseInt (padStart 2 (CHR ''0'') (toString n)) = n"
  using digits_digitsOf[of n]
  by (simp_all add: padStart_def toString_def digitsOf_nonempty parseInt_zeros
        parseInt_digitsOf isDigit_zero list_all_iff Ball_def)

lemma endTimeOf_period:
  assumes "list_all isDigit hs" "hs \<noteq> []" "list_all isDigit ms" "ms \<noteq> []"
    and "p = ''AM'' \<or> p = ''PM''"
    and "H = hour24 p (parseInt hs)"
  shows "endTimeOf (hs @ '':'' @ ms @ '' '' @ p) =
           Some (padStart 2 (CHR ''0'') (toString (if H + 1 > 12 then H + 1 - 12 else H + 1))
                 @ '':'' @ ms @ '' '' @ (if H + 1 \<ge> 12 then ''PM'' else ''AM''))"
  using slotTime24_period[OF assms(1-5)] assms(6)
  by (simp add: endTimeOf_def Let_def)

lemma minuteOfDay_endTime:
  assumes "list_all isDigit ms" "ms \<noteq> []" "H \<le> 22"
  shows "minuteOfDay (padStart 2 (CHR ''0'') (toString (if H + 1 > 12 then H + 1 - 12 else H + 1))
                 @ '':'' @ ms @ '' '' @ (if H + 1 \<ge> 12 then ''PM'' else ''AM''))
         = Some (60 * H + parseInt ms + 60)"
proof -
  let ?eh = "if H + 1 > 12 then H + 1 - 12 else H + 1"
  let ?ep = "if H + 1 \<ge> 12 then ''PM'' else ''AM''"
  have ep: "?ep = ''AM'' \<or> ?ep = ''PM''" by simp
  have "hour24 ?ep ?eh = H + 1"
    using assms(3) by (auto simp: hour24_cases)
  with startTime24_period[OF padStart_digits(1,2) assms(1,2) ep, of ?eh]
  show ?thesis
    by (simp add: minuteOfDay_def padStart_digits(3))
qed

text \<open>
  C2, as amended. For a start time \<open>h:mm AM\<close> or \<open>h:mm PM\<close> with \<open>h\<close> from 1 to 12,
  other than 11 PM, the end time derived for the booking is the start time plus sixty
  minutes: its hour is written with two digits, its minute string is that of the start
  time, and its suffix is derived anew, so that 11:xx AM gives 12:xx PM and 12:xx PM gives
  01:xx PM.
\<close>

theorem endTimeOf_plus_sixty:
  assumes "list_all isDigit hs" "hs \<noteq> []" "list_all isDigit ms" "ms \<noteq> []"
    and "1 \<le> parseInt hs" "parseInt hs \<le> 12"
    and "p = ''AM'' \<or> p = ''PM''"
    and "\<not> (parseInt hs = 11 \<and> p = ''PM'')"
    and "H = hour24 p (parseInt hs)"
    and "e = padStart 2 (CHR ''0'') (toString (if H + 1 > 12 then H + 1 - 12 else H + 1))
                 @ '':'' @ ms @ '' '' @ (if H + 1 \<ge> 12 then ''PM'' else ''AM'')"
  shows "endTimeOf (hs @ '':'' @ ms @ '' '' @ p) = Some e
         \<and> minuteOfDay (hs @ '':'' @ ms @ '' '' @ p) = Some (60 * H + parseInt ms)
         \<and> minuteOfDay e = Some (60 * H + parseInt ms + 60)"
proof -
  have H: "H \<le> 22"
    using assms(5-9) by (auto simp: hour24_cases split: if_splits)
  have "minuteOfDay (hs @ '':'' @ ms @ '' '' @ p) = Some (60 * H + parseInt ms)"
    using startTime24_period[OF assms(1-4,7)] assms(9) by (simp add: minuteOfDay_def)
  then show ?thesis
    using endTimeOf_period[OF assms(1-4,7,9)] minuteOfDay_endTime[OF assms(3,4) H] assms(10)
    by simp
qed

theorem endTimeOf_plus_sixty_witness:
  "endTimeOf ''12:30 PM'' = Some ''01:30 PM''
   \<and> minuteOfDay ''12:30 PM'' = Some 750 \<and> minuteOfDay ''01:30 PM'' = Some 810"
proof -
  have a: "parseInt ''12'' = 12" "parseInt ''30'' = 30"
    by (simp_all add: parseInt_def digitVal_def)
  have d: "list_all isDigit ''12''" "''12'' \<noteq> []" "list_all isDigit ''30''" "''30'' \<noteq> []"
    by (simp_all add: isDigit_def)
  have p1: "1 \<le> parseInt ''12''" "parseInt ''12'' \<le> 12"
    by (simp_all add: a)
  have p2: "''PM'' = ''AM'' \<or> ''PM'' = ''PM''"
    by simp
  have p3: "\<not> (parseInt ''12'' = 11 \<and> ''PM'' = ''PM'')"
    by (simp add: a)
  have p4: "(12::nat) = hour24 ''PM'' (parseInt ''12'')"
    by (simp add: a hour24_def)
  have "toString 1 = ''1''"
    by (simp add: toString_def digitsOf.simps)
  then have p5: "''01:30 PM'' =
      padStart 2 (CHR ''0'') (toString (if (12::nat) + 1 > 12 then 12 + 1 - 12 else 12 + 1))
        @ '':'' @ ''30'' @ '' '' @ (if (12::nat) + 1 \<ge> 12 then ''PM'' else ''AM'')"
    by (simp add: padStart_def)
  from endTimeOf_plus_sixty[OF d p1 p2 p3 p4 p5]
  have "endTimeOf (''12'' @ '':'' @ ''30'' @ '' '' @ ''PM'') = Some ''01:30 PM''
     \<and> minuteOfDay (''12'' @ '':'' @ ''30'' @ '' '' @ ''PM'') = Some (60 * 12 + parseInt ''30'')
     \<and> minuteOfDay ''01:30 PM'' = Some (60 * 12 + parseInt ''30'' + 60)" .
  then show ?thesis by (simp add: a)
qed

text \<open>
  The claim as stated fails at 11 PM: the end time derived is 12:00 PM, which is noon and
  not the midnight 12:00 AM that lies sixty minutes after the start.
\<close>

theorem endTimeOf_eleven_pm_counterexample:
  "endTimeOf ''11:00 PM'' = Some ''12:00 PM''
   \<and> minuteOfDay ''11:00 PM'' = Some 1380
   \<and> minuteOfDay ''12:00 PM'' = Some 720
   \<and> minuteOfDay ''12:00 AM'' = Some 0"
  by code_simp


section \<open>The record a booking persists\<close>

lemma timeSlots_plus_sixty:
  "list_all (\<lambda>s. case (endTimeOf s, minuteOfDay s) of
                   (Some e, Some n) \<Rightarrow> minuteOfDay e = Some (n + 60)
                 | _ \<Rightarrow> False) timeSlots"
  by code_simp

lemma endTimeOf_Nil: "endTimeOf [] = None"
  by (simp add: endTimeOf_def slotTime24_def)

lemma booking_try_inserted:
  assumes "endTimeOf startTime = Some endTime" "insertError net = None"
  shows "\<exists>be2 st2. booking_try toISOString net u tf (Some t) startTime (be, st) = (None, be2, st2)
           \<and> rows be2 = rows be @ [\<lparr>id' = insertedId net, turf_id = tid tf, user_id = uid u,
                       booking_date = takeWhile (\<lambda>c. c \<noteq> CHR ''T'') (toISOString t),
                       start_time = startTime, end_time = endTime,
                       total_price = price tf, status = ''confirmed'',
                       created_at = insertedAt net\<rparr>]
           \<and> toasts st2 = toasts st @ [(''Booking successful!'',
                ''Your booking has been confirmed. We've sent you a confirmation email.'')]
           \<and> navigated st2 = navigated st @ [''/my-bookings'']"
proof (cases "email u")
  case None
  then show ?thesis
    using assms by (simp add: booking_try_def Let_def toast_def navigate_def)
next
  case (Some addr)
  show ?thesis
  proof (cases "addr = []")
    case True
    then show ?thesis
      using assms Some by (simp add: booking_try_def Let_def toast_def navigate_def)
  next
    case False
    show ?thesis
    proof (cases "invokeAnswer net")
      case (Resolved r)
      then show ?thesis
        using assms Some False
        by (cases r)
          (simp_all add: booking_try_def Let_def toast_def navigate_def console_error_def)
    next
      case (Rejected e)
      then show ?thesis
        using assms Some False
        by (simp add: booking_try_def Let_def toast_def navigate_def console_error_def)
    qed
  qed
qed

lemma handleBooking_inserts:
  assumes "turf st = Some tf" "date st = Some (Some t)" "selectedTimeSlot st = Some startTime"
    and "endTimeOf startTime = Some endTime"
    and "insertError net = None"
  shows "rows (fst (handleBooking toISOString net (Some u) (be, st))) =
           rows be @ [\<lparr>id' = insertedId net, turf_id = tid tf, user_id = uid u,
                       booking_date = takeWhile (\<lambda>c. c \<noteq> CHR ''T'') (toISOString t),
                       start_time = startTime, end_time = endTime,
                       total_price = price tf, status = ''confirmed'',
                       created_at = insertedAt net\<rparr>]"
proof -
  have ne: "startTime \<noteq> []" using assms(4) endTimeOf_Nil by auto
  from booking_try_inserted[OF assms(4,5), of toISOString u tf t be "st\<lparr>isBooking := True\<rparr>"]
  obtain be2 st2 where
    t: "booking_try toISOString net u tf (Some t) startTime (be, st\<lparr>isBooking := True\<rparr>)
          = (None, be2, st2)"
    and r: "rows be2 = rows be @ [\<lparr>id' = insertedId net, turf_id = tid tf, user_id = uid u,
                       booking_date = takeWhile (\<lambda>c. c \<noteq> CHR ''T'') (toISOString t),
                       start_time = startTime, end_time = endTime,
                       total_price = price tf, status = ''confirmed'',
                       created_at = insertedAt net\<rparr>]"
    by blast
  have "rows (fst (handleBooking toISOString net (Some u) (be, st))) = rows be2"
    using assms(1-3) ne t by (simp add: handleBooking_def)
  with r show ?thesis by simp
qed

text \<open>
  C5, as amended. When a signed-in user books a turf with a date selected and a slot
  \<open>h:mm AM\<close> or \<open>h:mm PM\<close> with \<open>h\<close> from 1 to 12 and \<open>mm\<close> up to 59, other than 11 PM,
  and the backend accepts the insertion, the table gains exactly one row: its end time is
  the one the slot
  arithmetic derives, which is the start time plus one hour, its total price is the
  turf's price, and its status is confirmed.
\<close>

theorem handleBooking_persists:
  assumes "turf st = Some tf" "date st = Some (Some t)"
    and "list_all isDigit hs" "hs \<noteq> []" "list_all isDigit ms" "ms \<noteq> []"
    and "1 \<le> parseInt hs" "parseInt hs \<le> 12"
    and "p = ''AM'' \<or> p = ''PM''"
    and "\<not> (parseInt hs = 11 \<and> p = ''PM'')"
    and "selectedTimeSlot st = Some (hs @ '':'' @ ms @ '' '' @ p)"
    and "insertError net = None"
    and "parseInt ms \<le> 59"
  shows "\<exists>endTime n.
           rows (fst (handleBooking toISOString net (Some u) (be, st))) =
             rows be @ [\<lparr>id' = insertedId net, turf_id = tid tf, user_id = uid u,
                         booking_date = takeWhile (\<lambda>c. c \<noteq> CHR ''T'') (toISOString t),
                         start_time = hs @ '':'' @ ms @ '' '' @ p, end_time = endTime,
                         total_price = price tf, status = ''confirmed'',
                         created_at = insertedAt net\<rparr>]
           \<and> endTimeOf (hs @ '':'' @ ms @ '' '' @ p) = Some endTime
           \<and> minuteOfDay (hs @ '':'' @ ms @ '' '' @ p) = Some n
           \<and> minuteOfDay endTime = Some (n + 60)"
proof -
  define H where "H = hour24 p (parseInt hs)"
  define endTime where
    "endTime = padStart 2 (CHR ''0'') (toString (if H + 1 > 12 then H + 1 - 12 else H + 1))
                 @ '':'' @ ms @ '' '' @ (if H + 1 \<ge> 12 then ''PM'' else ''AM'')"
  have H: "H \<le> 22"
    using assms(7-10) by (auto simp: H_def hour24_cases split: if_splits)
  have e: "endTimeOf (hs @ '':'' @ ms @ '' '' @ p) = Some endTime"
    unfolding endTime_def by (rule endTimeOf_period[OF assms(3-6,9) H_def])
  have s: "minuteOfDay (hs @ '':'' @ ms @ '' '' @ p) = Some (60 * H + parseInt ms)"
    using startTime24_period[OF assms(3-6,9)] by (simp add: minuteOfDay_def H_def)
  have f: "minuteOfDay endTime = Some (60 * H + parseInt ms + 60)"
    unfolding endTime_def by (rule minuteOfDay_endTime[OF assms(5,6) H])
  from handleBooking_inserts[OF assms(1,2,11) e assms(12)] e s f
  show ?thesis by blast
qed

theorem handleBooking_persists_witness:
  "rows (fst (handleBooking exampleISO (exampleAnswers (Rejected ''Failed to fetch''))
            (Some exampleUser) (\<lparr>rows = [], invoked = []\<rparr>, exampleTurfDetail ''09:00 AM''))) =
     [\<lparr>id' = ''b9'', turf_id = ''t1'', user_id = ''u1'', booking_date = ''2024-06-10'',
       start_time = ''09:00 AM'', end_time = ''10:00 AM'', total_price = 1200,
       status = ''confirmed'', created_at = ''2024-06-01T10:00:00Z''\<rparr>]
   \<and> (\<exists>n. minuteOfDay ''09:00 AM'' = Some n \<and> minuteOfDay ''10:00 AM'' = Some (n + 60))"
proof -
  have e: "endTimeOf ''09:00 AM'' = Some ''10:00 AM''"
    by code_simp
  have a: "parseInt ''09'' = 9"
    by (simp add: parseInt_def digitVal_def)
  have d: "list_all isDigit ''09''" "''09'' \<noteq> []" "list_all isDigit ''00''" "''00'' \<noteq> []"
    by (simp_all add: isDigit_def)
  have h: "1 \<le> parseInt ''09''" "parseInt ''09'' \<le> 12"
    by (simp_all add: a)
  have q: "''AM'' = ''AM'' \<or> ''AM'' = ''PM''" "\<not> (parseInt ''09'' = 11 \<and> ''AM'' = ''PM'')"
    by simp_all
  have p: "turf (exampleTurfDetail ''09:00 AM'') = Some \<lparr>tid = ''t1'', price = 1200\<rparr>"
    "date (exampleTurfDetail ''09:00 AM'') = Some (Some 1717977600000)"
    by (simp_all add: exampleTurfDetail_def)
  have s: "selectedTimeSlot (exampleTurfDetail ''09:00 AM'')
             = Some (''09'' @ '':'' @ ''00'' @ '' '' @ ''AM'')"
    by (simp add: exampleTurfDetail_def)
  have i: "insertError (exampleAnswers (Rejected ''Failed to fetch'')) = None"
    by (simp add: exampleAnswers_def)
  have l: "''09'' @ '':'' @ ''00'' @ '' '' @ ''AM'' = ''09:00 AM''"
    by simp
  have mm: "parseInt ''00'' \<le> 59"
    by (simp add: parseInt_def digitVal_def)
  from handleBooking_persists[OF p d h q s i mm, of exampleISO exampleUser
         "\<lparr>rows = [], invoked = []\<rparr>"]
  obtain endTime n where
    r: "rows (fst (handleBooking exampleISO (exampleAnswers (Rejected ''Failed to fetch''))
            (Some exampleUser) (\<lparr>rows = [], invoked = []\<rparr>, exampleTurfDetail ''09:00 AM'')))
        = rows \<lparr>rows = [], invoked = []\<rparr>
          @ [\<lparr>id' = insertedId (exampleAnswers (Rejected ''Failed to fetch'')),
              turf_id = tid \<lparr>tid = ''t1'', price = 1200\<rparr>, user_id = uid exampleUser,
              booking_date = takeWhile (\<lambda>c. c \<noteq> CHR ''T'') (exampleISO 1717977600000),
              start_time = ''09'' @ '':'' @ ''00'' @ '' '' @ ''AM'', end_time = endTime,
              total_price = price \<lparr>tid = ''t1'', price = 1200\<rparr>, status = ''confirmed'',
              created_at = insertedAt (exampleAnswers (Rejected ''Failed to fetch''))\<rparr>]"
    and e': "endTimeOf (''09'' @ '':'' @ ''00'' @ '' '' @ ''AM'') = Some endTime"
    and m: "minuteOfDay (''09'' @ '':'' @ ''00'' @ '' '' @ ''AM'') = Some n"
      "minuteOfDay endTime = Some (n + 60)"
    by blast
  from e' e have t: "endTime = ''10:00 AM''"
    unfolding l by simp
  have "\<exists>n. minuteOfDay ''09:00 AM'' = Some n \<and> minuteOfDay ''10:00 AM'' = Some (n + 60)"
    using m unfolding l t by blast
  moreover have "rows (fst (handleBooking exampleISO (exampleAnswers (Rejected ''Failed to fetch''))
            (Some exampleUser) (\<lparr>rows = [], invoked = []\<rparr>, exampleTurfDetail ''09:00 AM''))) =
     [\<lparr>id' = ''b9'', turf_id = ''t1'', user_id = ''u1'', booking_date = ''2024-06-10'',
       start_time = ''09:00 AM'', end_time = ''10:00 AM'', total_price = 1200,
       status = ''confirmed'', created_at = ''2024-06-01T10:00:00Z''\<rparr>]"
    unfolding r t by (simp add: exampleAnswers_def exampleUser_def exampleISO_def)
  ultimately show ?thesis by blast
qed

text \<open>
  The claim as stated fails at 11 PM: the row persisted for the slot 11:00 PM ends at
  12:00 PM, which is noon, eleven hours before the start.
\<close>

theorem handleBooking_eleven_pm_counterexample:
  "rows (fst (handleBooking exampleISO (exampleAnswers (Resolved None))
            (Some exampleUser) (\<lparr>rows = [], invoked = []\<rparr>, exampleTurfDetail ''11:00 PM''))) =
     [\<lparr>id' = ''b9'', turf_id = ''t1'', user_id = ''u1'', booking_date = ''2024-06-10'',
       start_time = ''11:00 PM'', end_time = ''12:00 PM'', total_price = 1200,
       status = ''confirmed'', created_at = ''2024-06-01T10:00:00Z''\<rparr>]
   \<and> minuteOfDay ''11:00 PM'' = Some 1380
   \<and> minuteOfDay ''12:00 PM'' = Some 720"
proof -
  have e: "endTimeOf ''11:00 PM'' = Some ''12:00 PM''"
    by code_simp
  have p: "turf (exampleTurfDetail ''11:00 PM'') = Some \<lparr>tid = ''t1'', price = 1200\<rparr>"
    "date (exampleTurfDetail ''11:00 PM'') = Some (Some 1717977600000)"
    "selectedTimeSlot (exampleTurfDetail ''11:00 PM'') = Some ''11:00 PM''"
    by (simp_all add: exampleTurfDetail_def)
  have i: "insertError (exampleAnswers (Resolved None)) = None"
    by (simp add: exampleAnswers_def)
  have m: "minuteOfDay ''11:00 PM'' = Some 1380" "minuteOfDay ''12:00 PM'' = Some 720"
    by code_simp+
  from handleBooking_inserts[OF p e i, of exampleISO exampleUser "\<lparr>rows = [], invoked = []\<rparr>"] m
  show ?thesis
    by (simp add: exampleAnswers_def exampleUser_def exampleISO_def)
qed


section \<open>Notifications that fail\<close>

lemma handleBooking_notification_outcome:
  "rows (fst (handleBooking toISOString (net\<lparr>invokeAnswer := a\<rparr>) user (be, st)))
     = rows (fst (handleBooking toISOString (net\<lparr>invokeAnswer := a'\<rparr>) user (be, st)))
   \<and> toasts (snd (handleBooking toISOString (net\<lparr>invokeAnswer := a\<rparr>) user (be, st)))
     = toasts (snd (handleBooking toISOString (net\<lparr>invokeAnswer := a'\<rparr>) user (be, st)))
   \<and> navigated (snd (handleBooking toISOString (net\<lparr>invokeAnswer := a\<rparr>) user (be, st)))
     = navigated (snd (handleBooking toISOString (net\<lparr>invokeAnswer := a'\<rparr>) user (be, st)))"
  by (simp add: handleBooking_def booking_try_def Let_def toast_def navigate_def console_error_def
        split: invokeResult.splits option.splits prod.splits)

lemma handleCancelConfirm_rows:
  "rows (fst (handleCancelConfirm (net\<lparr>invokeAnswer := a\<rparr>) user (be, st)))
     = rows (fst (handleCancelConfirm (net\<lparr>invokeAnswer := a'\<rparr>) user (be, st)))"
  by (simp add: handleCancelConfirm_def cancelConfirm_try_def Let_def
        split: invokeResult.splits option.splits prod.splits list.splits)

lemma handleCancelConfirm_notification_resolved:
  assumes "confirmCancelId st = Some cid" "cid \<noteq> []"
    and "selectError net = None" "updateError net = None"
    and "filter (\<lambda>b. id' b = cid) (rows be) = [r]"
    and "email u = Some addr" "addr \<noteq> []"
    and "invokeAnswer net = Resolved res"
  shows "handleCancelConfirm net (Some u) (be, st) =
           (be\<lparr>rows := markCancelled cid (rows be),
               invoked := invoked be @ [(''booking-notification'', addr)]\<rparr>,
            st\<lparr>toasts := toasts st @ [(''Booking cancelled'',
                                        ''Your booking has been successfully cancelled.'')],
               bookings := markCancelled cid (bookings st),
               isCancelling := False, confirmCancelId := None\<rparr>)"
  using assms
  by (simp add: handleCancelConfirm_def cancelConfirm_try_def Let_def toast_def)

text \<open>
  C6. Creating a booking does what the claim says: however the notification call ends,
  the row persisted, the toasts and the navigation are the same
  (\<open>handleBooking_notification_outcome\<close>), and the table after a cancellation does not
  depend on it either (\<open>handleCancelConfirm_rows\<close>). But \<open>handleCancelConfirm\<close> awaits
  the notification with no \<open>try\<close> of its own: when the call throws after the status has
  been set to cancelled in the table, the handler reports an error to the user and leaves
  the page's list of bookings as it was.
\<close>

theorem handleCancelConfirm_notification_rejected:
  assumes "confirmCancelId st = Some cid" "cid \<noteq> []"
    and "selectError net = None" "updateError net = None"
    and "filter (\<lambda>b. id' b = cid) (rows be) = [r]"
    and "email u = Some addr" "addr \<noteq> []"
    and "invokeAnswer net = Rejected e"
  shows "handleCancelConfirm net (Some u) (be, st) =
           (be\<lparr>rows := markCancelled cid (rows be),
               invoked := invoked be @ [(''booking-notification'', addr)]\<rparr>,
            st\<lparr>toasts := toasts st @ [(''Error'', ''Failed to cancel booking. Please try again.'')],
               consoleErrors := consoleErrors st @ [(''Error cancelling booking:'', e)],
               isCancelling := False, confirmCancelId := None\<rparr>)"
  using assms
  by (simp add: handleCancelConfirm_def cancelConfirm_try_def Let_def toast_def
        console_error_def)

theorem handleCancelConfirm_notification_rejected_witness:
  "handleCancelConfirm (exampleAnswers (Rejected ''Failed to fetch'')) (Some exampleUser)
     (\<lparr>rows = [exampleBooking ''b1'' ''2024-06-10'' ''03:00 PM'' ''confirmed''], invoked = []\<rparr>,
      examplePage [exampleBooking ''b1'' ''2024-06-10'' ''03:00 PM'' ''confirmed''] (Some ''b1''))
   = (\<lparr>rows = [exampleBooking ''b1'' ''2024-06-10'' ''03:00 PM'' ''cancelled''],
       invoked = [(''booking-notification'', ''user@example.org'')]\<rparr>,
      \<lparr>toasts = [(''Error'', ''Failed to cancel booking. Please try again.'')],
       consoleErrors = [(''Error cancelling booking:'', ''Failed to fetch'')],
       navigated = [],
       bookings = [exampleBooking ''b1'' ''2024-06-10'' ''03:00 PM'' ''confirmed''],
       confirmCancelId = None, isCancelling = False\<rparr>)"
proof -
  let ?b = "exampleBooking ''b1'' ''2024-06-10'' ''03:00 PM'' ''confirmed''"
  have p: "confirmCancelId (examplePage [?b] (Some ''b1'')) = Some ''b1''"
    "''b1'' \<noteq> []"
    "selectError (exampleAnswers (Rejected ''Failed to fetch'')) = None"
    "updateError (exampleAnswers (Rejected ''Failed to fetch'')) = None"
    "filter (\<lambda>b. id' b = ''b1'') (rows \<lparr>rows = [?b], invoked = []\<rparr>) = [?b]"
    "email exampleUser = Some ''user@example.org''"
    "''user@example.org'' \<noteq> []"
    "invokeAnswer (exampleAnswers (Rejected ''Failed to fetch'')) = Rejected ''Failed to fetch''"
    by (simp_all add: examplePage_def exampleAnswers_def exampleUser_def exampleBooking_fields)
  from handleCancelConfirm_notification_rejected[OF p]
  show ?thesis
    by (simp add: examplePage_def exampleBooking_def markCancelled_def)
qed

end
